theory Spec2Isabelle
  imports Main "HOL-Library.Word" "HOL-Library.Monad_Syntax"
begin

unbundle bit_operations_syntax

section \<open>Kernel objects read by the module\<close>

type_synonym u16 = "16 word"
type_synonym u32 = "32 word"

text \<open>An \<^verbatim>\<open>acpi_handle\<close> is an opaque pointer; \<open>None\<close> is \<^verbatim>\<open>NULL\<close>.\<close>

type_synonym acpi_handle = nat

text \<open>
  \<^verbatim>\<open>struct pci_bus\<close>: only \<^verbatim>\<open>bus->self\<close>, the bridge device leading to the bus, is
  read. It is \<^verbatim>\<open>NULL\<close> on a root bus. The bridge is named by its device name.
\<close>

record pci_bus =
  bus_self :: "string option"

text \<open>
  \<^verbatim>\<open>struct pci_dev\<close>, with the fields the module reads: \<^verbatim>\<open>dev_name(&pdev->dev)\<close>,
  \<^verbatim>\<open>pdev->vendor\<close> (unsigned short), \<^verbatim>\<open>pdev->class\<close> (unsigned int),
  \<^verbatim>\<open>pdev->driver\<close> (the bound driver, here its name, \<^verbatim>\<open>NULL\<close> when unbound),
  \<^verbatim>\<open>pdev->bus\<close>, the result of \<^verbatim>\<open>DEVICE_ACPI_HANDLE(&pdev->dev)\<close>, the path
  \<^verbatim>\<open>acpi_get_name\<close> gives for that handle, and the dword the hardware returns for
  a read of configuration space at offset 0.
\<close>

record pci_dev =
  dev_name :: string
  vendor :: u16
  dev_class :: u32
  driver :: "string option"
  bus :: "pci_bus option"
  handle :: "acpi_handle option"
  acpi_path :: string
  cfg0 :: u32

text \<open>Constants of the kernel headers (\<^verbatim>\<open>pci_ids.h\<close>, \<^verbatim>\<open>suspend.h\<close>, \<^verbatim>\<open>errno.h\<close>).\<close>

definition PCI_CLASS_DISPLAY_VGA :: u32 where "PCI_CLASS_DISPLAY_VGA = 0x0300"
definition PCI_CLASS_DISPLAY_3D :: u32 where "PCI_CLASS_DISPLAY_3D = 0x0302"
definition PCI_CLASS_DISPLAY_OTHER :: u32 where "PCI_CLASS_DISPLAY_OTHER = 0x0380"
definition PCI_VENDOR_ID_INTEL :: u16 where "PCI_VENDOR_ID_INTEL = 0x8086"

definition PM_HIBERNATION_PREPARE :: "64 word" where "PM_HIBERNATION_PREPARE = 0x0001"
definition PM_POST_HIBERNATION :: "64 word" where "PM_POST_HIBERNATION = 0x0002"
definition PM_SUSPEND_PREPARE :: "64 word" where "PM_SUSPEND_PREPARE = 0x0003"
definition PM_POST_SUSPEND :: "64 word" where "PM_POST_SUSPEND = 0x0004"
definition PM_RESTORE_PREPARE :: "64 word" where "PM_RESTORE_PREPARE = 0x0005"
definition PM_POST_RESTORE :: "64 word" where "PM_POST_RESTORE = 0x0006"

definition ENODEV :: int where "ENODEV = 19"

definition DISCRETE_DISABLER_VERSION :: string where
  "DISCRETE_DISABLER_VERSION = ''0.2''"

section \<open>Module state\<close>

text \<open>
  The anonymous enum of the module; in C the values are \<open>-1\<close>, \<open>0\<close> and \<open>1\<close>, kept in
  \<^verbatim>\<open>int\<close> variables that are only ever assigned these three.
\<close>

datatype gpu = GPU_UNCHANGED | GPU_DISABLE | GPU_ENABLE

text \<open>
  Every call into the kernel is recorded, oldest first: \<^verbatim>\<open>printk\<close> (through
  \<^verbatim>\<open>pr_info\<close>, \<^verbatim>\<open>pr_warn\<close>, \<^verbatim>\<open>pr_err\<close>; the format without the module prefix
  and the newline, then the arguments), configuration reads, runtime power management
  of the parent bridge, ACPI calls and the registration of the notifier.
\<close>

datatype level = KERN_INFO | KERN_WARNING | KERN_ERR

datatype event =
    Printk level string "string list"
  | Pci_read_config_dword string nat
  | Pm_runtime_get_sync string
  | Pm_runtime_put_sync string
  | Acpi_evaluate_object "acpi_handle option" string
  | Acpi_get_name acpi_handle
  | Kfree
  | Register_pm_notifier
  | Unregister_pm_notifier

text \<open>
  The statics of the module and the trace of kernel calls. \<open>dis_dev\<close> holds the
  \<^verbatim>\<open>struct pci_dev\<close> the pointer refers to (\<open>None\<close> is \<^verbatim>\<open>NULL\<close>): no other
  reference to that device is used once the scan is over. \<open>nb_notifier_call\<close> tells
  whether \<^verbatim>\<open>nb.notifier_call\<close> points to \<^verbatim>\<open>discrete_pm_handler\<close> (it is \<^verbatim>\<open>NULL\<close>
  otherwise).
\<close>

record state =
  device_vendor :: int
  discrete_state :: gpu
  load_discrete_state :: gpu
  dis_dev :: "pci_dev option"
  dis_handle :: "acpi_handle option"
  nb_notifier_call :: bool
  trace :: "event list"

text \<open>The statics as the module is loaded.\<close>

definition module_initial :: state where
  "module_initial =
     \<lparr>device_vendor = 0xffff, discrete_state = GPU_UNCHANGED,
      load_discrete_state = GPU_UNCHANGED, dis_dev = None, dis_handle = None,
      nb_notifier_call = False, trace = []\<rparr>"

definition emit :: "event \<Rightarrow> state \<Rightarrow> state" where
  "emit e s = s\<lparr>trace := trace s @ [e]\<rparr>"

text \<open>
  The platform firmware is not part of the module: what a control method does to the
  dword the device returns at offset 0 is a parameter, a function of the handle, the
  method name and the dword before the call.
\<close>

type_synonym firmware = "acpi_handle option \<Rightarrow> string \<Rightarrow> u32 \<Rightarrow> u32"

definition acpi_evaluate_object ::
    "firmware \<Rightarrow> acpi_handle option \<Rightarrow> string \<Rightarrow> state \<Rightarrow> state" where
  "acpi_evaluate_object fw h m s =
     emit (Acpi_evaluate_object h m)
       (s\<lparr>dis_dev := map_option (\<lambda>d. d\<lparr>cfg0 := fw h m (cfg0 d)\<rparr>) (dis_dev s)\<rparr>)"

section \<open>The functions of the module\<close>

text \<open>
  A function that dereferences \<^verbatim>\<open>dis_dev\<close> returns \<open>None\<close> when it is \<^verbatim>\<open>NULL\<close>
  (the kernel stops there).
\<close>

definition get_discrete_state :: "state \<Rightarrow> (gpu \<times> state) option" where
  "get_discrete_state s =
     (case dis_dev s of
        None \<Rightarrow> None
      | Some d \<Rightarrow>
          (let cfg_word = cfg0 d;
               s1 = emit (Pci_read_config_dword (dev_name d) 0) s
           in if NOT cfg_word \<noteq> 0 then Some (GPU_ENABLE, s1)
              else Some (GPU_DISABLE, s1)))"

definition dis_dev_get :: "state \<Rightarrow> state option" where
  "dis_dev_get s =
     (case dis_dev s of
        None \<Rightarrow> None
      | Some d \<Rightarrow>
          (case bus d of
             None \<Rightarrow> Some s
           | Some b \<Rightarrow>
               (case bus_self b of
                  None \<Rightarrow> Some s
                | Some bridge \<Rightarrow> Some (emit (Pm_runtime_get_sync bridge) s))))"

definition dis_dev_put :: "state \<Rightarrow> state option" where
  "dis_dev_put s =
     (case dis_dev s of
        None \<Rightarrow> None
      | Some d \<Rightarrow>
          (case bus d of
             None \<Rightarrow> Some s
           | Some b \<Rightarrow>
               (case bus_self b of
                  None \<Rightarrow> Some s
                | Some bridge \<Rightarrow> Some (emit (Pm_runtime_put_sync bridge) s))))"

definition discrete_off :: "firmware \<Rightarrow> state \<Rightarrow> state option" where
  "discrete_off fw s0 =
     do {
       let s1 = emit (Printk KERN_INFO ''turning discrete off'' []) s0;
       (st, s2) \<leftarrow> get_discrete_state s1;
       if st = GPU_DISABLE then Some s2
       else
         (case dis_dev s2 of
            None \<Rightarrow> None
          | Some d \<Rightarrow>
              (case driver d of
                 Some drv \<Rightarrow>
                   Some (emit (Printk KERN_WARNING
                           ''device %s is in use by driver '%s', refusing OFF''
                           [dev_name d, drv]) s2)
               | None \<Rightarrow>
                   (let s3 = emit (Printk KERN_INFO ''disabling discrete grapics'' []) s2;
                        s4 = acpi_evaluate_object fw (dis_handle s3) ''_OFF'' s3
                    in Some (s4\<lparr>discrete_state := GPU_DISABLE\<rparr>))))
     }"

definition discrete_on :: "firmware \<Rightarrow> state \<Rightarrow> state option" where
  "discrete_on fw s0 =
     do {
       let s1 = emit (Printk KERN_INFO ''turn discrete on'' []) s0;
       (st, s2) \<leftarrow> get_discrete_state s1;
       if st = GPU_ENABLE then Some s2
       else
         (let s3 = emit (Printk KERN_INFO ''enabling discrete graphics'' []) s2;
              s4 = acpi_evaluate_object fw (dis_handle s3) ''_ON'' s3
          in Some (s4\<lparr>discrete_state := GPU_ENABLE\<rparr>))
     }"

definition discrete_pm_handler ::
    "firmware \<Rightarrow> 64 word \<Rightarrow> state \<Rightarrow> (int \<times> state) option" where
  "discrete_pm_handler fw event_type s =
     (if event_type = PM_HIBERNATION_PREPARE \<or> event_type = PM_SUSPEND_PREPARE then
        (if load_discrete_state s = GPU_ENABLE \<and> discrete_state s = GPU_DISABLE then
           do {
             s1 \<leftarrow> dis_dev_get s;
             s2 \<leftarrow> discrete_on fw s1;
             s3 \<leftarrow> dis_dev_put s2;
             Some (0, s3)
           }
         else Some (0, s))
      else if event_type = PM_POST_HIBERNATION \<or> event_type = PM_POST_SUSPEND
              \<or> event_type = PM_POST_RESTORE then
        (if load_discrete_state s = GPU_ENABLE \<and> discrete_state s = GPU_ENABLE then
           do {
             s1 \<leftarrow> dis_dev_get s;
             s2 \<leftarrow> discrete_off fw s1;
             s3 \<leftarrow> dis_dev_put s2;
             Some (0, s3)
           }
         else Some (0, s))
      else if event_type = PM_RESTORE_PREPARE then Some (0, s)
      else Some (0, s))"

text \<open>
  The loop of \<^verbatim>\<open>discrete_disabler_init\<close> over the devices \<^verbatim>\<open>pci_get_device\<close>
  enumerates, in that order. Its locals are \<^verbatim>\<open>igd_dev\<close> and \<^verbatim>\<open>igd_handle\<close>; the
  discrete device goes to the statics. \<^verbatim>\<open>continue\<close> is the recursive call on the
  rest, \<^verbatim>\<open>break\<close> returns.
\<close>

record scan_locals =
  igd_dev :: "pci_dev option"
  igd_handle :: "acpi_handle option"

fun scan :: "pci_dev list \<Rightarrow> scan_locals \<Rightarrow> state \<Rightarrow> scan_locals \<times> state" where
  "scan [] l s = (l, s)"
| "scan (pdev # rest) l s =
     (let pci_class = drop_bit 8 (dev_class pdev) in
      if pci_class \<noteq> PCI_CLASS_DISPLAY_VGA \<and> pci_class \<noteq> PCI_CLASS_DISPLAY_3D
         \<and> pci_class \<noteq> PCI_CLASS_DISPLAY_OTHER
      then scan rest l s
      else
        (case handle pdev of
           None \<Rightarrow>
             scan rest l
               (emit (Printk KERN_WARNING ''can not find ACPI handle for VGA device %s''
                        [dev_name pdev]) s)
         | Some h \<Rightarrow>
             (let s1 = emit (Acpi_get_name h) s;
                  (l2, s2) =
                    (if vendor pdev = PCI_VENDOR_ID_INTEL then
                       (l\<lparr>igd_dev := Some pdev, igd_handle := Some h\<rparr>,
                        emit (Printk KERN_INFO ''Found intergrated VGA device %s: %s''
                                [dev_name pdev, acpi_path pdev]) s1)
                     else
                       (l,
                        emit (Printk KERN_INFO ''Found discrete VGA device %s: %s''
                                [dev_name pdev, acpi_path pdev])
                          (s1\<lparr>dis_dev := Some pdev, dis_handle := Some h\<rparr>)));
                  s3 = emit Kfree s2
              in if igd_handle l2 \<noteq> None \<and> dis_handle s3 \<noteq> None then (l2, s3)
                 else scan rest l2 s3)))"

definition discrete_disabler_init ::
    "firmware \<Rightarrow> pci_dev list \<Rightarrow> state \<Rightarrow> (int \<times> state) option" where
  "discrete_disabler_init fw devs s0 =
     (let s1 = emit (Printk KERN_INFO ''version %s'' [DISCRETE_DISABLER_VERSION]) s0;
          (l, s2) = scan devs \<lparr>igd_dev = None, igd_handle = None\<rparr> s1
      in case dis_dev s2 of
           None \<Rightarrow>
             Some (- ENODEV, emit (Printk KERN_ERR ''No discrete VGA device found!'' []) s2)
         | Some d \<Rightarrow>
             do {
               let s3 = s2\<lparr>device_vendor := uint (vendor d)\<rparr>;
               let s4 = emit (Printk KERN_INFO
                                ''Successfully loaded. Discrete card found: %s''
                                [dev_name d]) s3;
               s5 \<leftarrow> dis_dev_get s4;
               (st, s6) \<leftarrow> get_discrete_state s5;
               let s7 = s6\<lparr>load_discrete_state := st\<rparr>;
               if load_discrete_state s7 = GPU_DISABLE then
                 do {
                   let s8 = emit (Printk KERN_INFO ''Discrete card %s is off. Do nothing.''
                                    [dev_name d]) s7;
                   s9 \<leftarrow> dis_dev_put s8;
                   Some (0, s9)
                 }
               else
                 do {
                   s8 \<leftarrow> discrete_off fw s7;
                   let s9 = emit (Printk KERN_INFO ''Successfully disable discrete card %s''
                                    [dev_name d]) s8;
                   let s10 = s9\<lparr>nb_notifier_call := True\<rparr>;
                   let s11 = emit Register_pm_notifier s10;
                   s12 \<leftarrow> dis_dev_put s11;
                   Some (0, s12)
                 }
             })"

definition discrete_disabler_exit :: "firmware \<Rightarrow> state \<Rightarrow> state option" where
  "discrete_disabler_exit fw s =
     (case dis_dev s of
        None \<Rightarrow> Some s
      | Some d \<Rightarrow>
          if dis_handle s = None then Some s
          else if load_discrete_state s = GPU_DISABLE then
            Some (emit (Printk KERN_INFO
                          ''discrete card %s is disabled before module load. Do nothing.''
                          [dev_name d]) s)
          else
            do {
              s1 \<leftarrow> dis_dev_get s;
              if discrete_state s1 = GPU_ENABLE then
                Some (emit (Printk KERN_INFO
                              ''discrete card %s has already been enabled. Do nothing.''
                              [dev_name d]) s1)
              else
                do {
                  s2 \<leftarrow> discrete_on fw s1;
                  let s3 = emit (Printk KERN_INFO
                                   ''Unloaded and Discrete card %s is enabled.''
                                   [dev_name d]) s2;
                  s4 \<leftarrow> dis_dev_put s3;
                  Some (if nb_notifier_call s4 then emit Unregister_pm_notifier s4 else s4)
                }
            })"

section \<open>Observations on the trace\<close>

text \<open>The kernel calls made between two states.\<close>

definition new_events :: "state \<Rightarrow> state \<Rightarrow> event list" where
  "new_events s s' = drop (length (trace s)) (trace s')"

fun is_firmware_call :: "event \<Rightarrow> bool" where
  "is_firmware_call (Acpi_evaluate_object h m) = True"
| "is_firmware_call e = False"

fun is_power_off :: "event \<Rightarrow> bool" where
  "is_power_off (Acpi_evaluate_object h m) = (m = ''_OFF'')"
| "is_power_off e = False"

fun is_acquire :: "event \<Rightarrow> bool" where
  "is_acquire (Pm_runtime_get_sync b) = True"
| "is_acquire e = False"

fun is_release :: "event \<Rightarrow> bool" where
  "is_release (Pm_runtime_put_sync b) = True"
| "is_release e = False"

text \<open>
  Each transition logs a line of its own as its first statement: the number of these
  lines is the number of calls of \<^verbatim>\<open>discrete_on\<close> and of \<^verbatim>\<open>discrete_off\<close>.
\<close>

definition enable_calls :: "event list \<Rightarrow> nat" where
  "enable_calls tr = count_list tr (Printk KERN_INFO ''turn discrete on'' [])"

definition disable_calls :: "event list \<Rightarrow> nat" where
  "disable_calls tr = count_list tr (Printk KERN_INFO ''turning discrete off'' [])"

section \<open>Example machines\<close>

definition nvidia_gpu :: pci_dev where
  "nvidia_gpu =
     \<lparr>dev_name = ''0000:01:00.0'', vendor = 0x10DE, dev_class = 0x030000,
      driver = None, bus = Some \<lparr>bus_self = Some ''0000:00:01.0''\<rparr>,
      handle = Some 2, acpi_path = ''_SB.PCI0.PEG0.PEGP'', cfg0 = 0x0FC610DE\<rparr>"

definition intel_gpu :: pci_dev where
  "intel_gpu =
     \<lparr>dev_name = ''0000:00:02.0'', vendor = 0x8086, dev_class = 0x030000,
      driver = Some ''i915'', bus = Some \<lparr>bus_self = None\<rparr>,
      handle = Some 1, acpi_path = ''_SB.PCI0.GFX0'', cfg0 = 0x01668086\<rparr>"

text \<open>A firmware whose methods take effect, and one whose calls change nothing.\<close>

definition fw_works :: firmware where
  "fw_works h m w = (if m = ''_OFF'' then 0xFFFFFFFF else if m = ''_ON'' then 0x0FC610DE else w)"

definition fw_silent :: firmware where
  "fw_silent h m w = w"

section \<open>What each function adds to the trace\<close>

text \<open>
  What \<^verbatim>\<open>dis_dev_get\<close> and \<^verbatim>\<open>dis_dev_put\<close> call for a device: one runtime power
  management call on the parent bridge, nothing for a device with no bus or on a root
  bus.
\<close>

definition acquire_events :: "pci_dev \<Rightarrow> event list" where
  "acquire_events d =
     (case bus d of
        None \<Rightarrow> []
      | Some b \<Rightarrow> (case bus_self b of None \<Rightarrow> [] | Some bridge \<Rightarrow> [Pm_runtime_get_sync bridge]))"

definition release_events :: "pci_dev \<Rightarrow> event list" where
  "release_events d =
     (case bus d of
        None \<Rightarrow> []
      | Some b \<Rightarrow> (case bus_self b of None \<Rightarrow> [] | Some bridge \<Rightarrow> [Pm_runtime_put_sync bridge]))"

text \<open>The kernel calls of one \<^verbatim>\<open>discrete_on\<close> and of one \<^verbatim>\<open>discrete_off\<close>.\<close>

definition on_events :: "state \<Rightarrow> pci_dev \<Rightarrow> event list" where
  "on_events s d =
     [Printk KERN_INFO ''turn discrete on'' [], Pci_read_config_dword (dev_name d) 0]
     @ (if cfg0 d = - 1
        then [Printk KERN_INFO ''enabling discrete graphics'' [],
              Acpi_evaluate_object (dis_handle s) ''_ON'']
        else [])"

definition off_events :: "state \<Rightarrow> pci_dev \<Rightarrow> event list" where
  "off_events s d =
     [Printk KERN_INFO ''turning discrete off'' [], Pci_read_config_dword (dev_name d) 0]
     @ (if cfg0 d = - 1 then []
        else (case driver d of
                Some drv \<Rightarrow>
                  [Printk KERN_WARNING ''device %s is in use by driver '%s', refusing OFF''
                     [dev_name d, drv]]
              | None \<Rightarrow>
                  [Printk KERN_INFO ''disabling discrete grapics'' [],
                   Acpi_evaluate_object (dis_handle s) ''_OFF'']))"

section \<open>Example states\<close>

text \<open>
  The statics when startup calls \<^verbatim>\<open>discrete_off\<close> on a powered device that the
  nouveau driver has claimed.
\<close>

definition refused_at_load :: state where
  "refused_at_load =
     module_initial\<lparr>device_vendor := 0x10DE, load_discrete_state := GPU_ENABLE,
        dis_dev := Some (nvidia_gpu\<lparr>driver := Some ''nouveau''\<rparr>), dis_handle := Some 2\<rparr>"

text \<open>The statics after a startup that powered the device off.\<close>

definition powered_off :: state where
  "powered_off =
     module_initial\<lparr>device_vendor := 0x10DE, discrete_state := GPU_DISABLE,
        load_discrete_state := GPU_ENABLE,
        dis_dev := Some (nvidia_gpu\<lparr>cfg0 := 0xFFFFFFFF\<rparr>), dis_handle := Some 2,
        nb_notifier_call := True\<rparr>"

section \<open>Classification of the devices, in the words of the specification\<close>

text \<open>
  A graphics-class device has one of the three display classes in the upper 24 bits of
  its class code. A candidate has a firmware handle as well; it is integrated when its
  vendor is Intel and discrete otherwise.
\<close>

definition graphics_class :: "pci_dev \<Rightarrow> bool" where
  "graphics_class p =
     (drop_bit 8 (dev_class p) = PCI_CLASS_DISPLAY_VGA
      \<or> drop_bit 8 (dev_class p) = PCI_CLASS_DISPLAY_3D
      \<or> drop_bit 8 (dev_class p) = PCI_CLASS_DISPLAY_OTHER)"

definition integrated_candidate :: "pci_dev \<Rightarrow> bool" where
  "integrated_candidate p =
     (graphics_class p \<and> handle p \<noteq> None \<and> vendor p = PCI_VENDOR_ID_INTEL)"

definition discrete_candidate :: "pci_dev \<Rightarrow> bool" where
  "discrete_candidate p =
     (graphics_class p \<and> handle p \<noteq> None \<and> vendor p \<noteq> PCI_VENDOR_ID_INTEL)"

text \<open>Both classifications are resolved among some devices.\<close>

definition both_resolved :: "pci_dev list \<Rightarrow> bool" where
  "both_resolved ps = (list_ex integrated_candidate ps \<and> list_ex discrete_candidate ps)"

text \<open>
  The devices the scan observes: it stops once both classifications are resolved, so
  they are the shortest prefix of the enumeration in which both are, and the whole
  enumeration when there is none.
\<close>

definition observed_prefix :: "pci_dev list \<Rightarrow> pci_dev list" where
  "observed_prefix devs =
     (case find (\<lambda>n. both_resolved (take n devs)) [0..<length devs] of
        Some n \<Rightarrow> take n devs
      | None \<Rightarrow> devs)"

text \<open>The last discrete candidate among some devices.\<close>

definition last_discrete :: "pci_dev list \<Rightarrow> pci_dev option" where
  "last_discrete ps =
     (case filter discrete_candidate ps of [] \<Rightarrow> None | c # cs \<Rightarrow> Some (last (c # cs)))"

text \<open>
  For the proofs about the loop: both classifications resolved, given what was resolved
  before; the kernel calls of the loop (its log lines all have arguments); the state
  after a candidate was taken.
\<close>

definition both_from :: "bool \<Rightarrow> bool \<Rightarrow> pci_dev list \<Rightarrow> bool" where
  "both_from i d ps =
     ((i \<or> list_ex integrated_candidate ps) \<and> (d \<or> list_ex discrete_candidate ps))"

fun is_scan_event :: "event \<Rightarrow> bool" where
  "is_scan_event (Printk lv f args) = (args \<noteq> [])"
| "is_scan_event (Acpi_get_name h) = True"
| "is_scan_event Kfree = True"
| "is_scan_event e = False"

definition found_integrated :: "pci_dev \<Rightarrow> acpi_handle \<Rightarrow> state \<Rightarrow> state" where
  "found_integrated p h s =
     emit Kfree (emit (Printk KERN_INFO ''Found intergrated VGA device %s: %s''
                         [dev_name p, acpi_path p]) (emit (Acpi_get_name h) s))"

definition found_discrete :: "pci_dev \<Rightarrow> acpi_handle \<Rightarrow> state \<Rightarrow> state" where
  "found_discrete p h s =
     emit Kfree (emit (Printk KERN_INFO ''Found discrete VGA device %s: %s''
                         [dev_name p, acpi_path p])
                   ((emit (Acpi_get_name h) s)\<lparr>dis_dev := Some p, dis_handle := Some h\<rparr>))"

text \<open>Two more discrete devices, for a machine with several.\<close>

definition second_nvidia :: pci_dev where
  "second_nvidia = nvidia_gpu\<lparr>dev_name := ''0000:02:00.0'', handle := Some 3\<rparr>"

definition third_nvidia :: pci_dev where
  "third_nvidia = nvidia_gpu\<lparr>dev_name := ''0000:03:00.0'', handle := Some 4\<rparr>"

section \<open>Startup, in pieces\<close>

text \<open>The number of firmware calls of the method \<^verbatim>\<open>_OFF\<close>.\<close>

definition power_off_calls :: "event list \<Rightarrow> nat" where
  "power_off_calls tr = length (filter is_power_off tr)"

text \<open>
  The state in which \<^verbatim>\<open>discrete_disabler_init\<close> leaves its loop, and the rest of the
  function from there (\<open>init_unfold\<close> below puts the two together again).
\<close>

definition version_line :: event where
  "version_line = Printk KERN_INFO ''version %s'' [DISCRETE_DISABLER_VERSION]"

definition scanned :: "pci_dev list \<Rightarrow> state \<Rightarrow> state" where
  "scanned devs s0 = snd (scan devs \<lparr>igd_dev = None, igd_handle = None\<rparr> (emit version_line s0))"

definition init_rest :: "firmware \<Rightarrow> state \<Rightarrow> (int \<times> state) option" where
  "init_rest fw s2 =
     (case dis_dev s2 of
           None \<Rightarrow>
             Some (- ENODEV, emit (Printk KERN_ERR ''No discrete VGA device found!'' []) s2)
         | Some d \<Rightarrow>
             do {
               let s3 = s2\<lparr>device_vendor := uint (vendor d)\<rparr>;
               let s4 = emit (Printk KERN_INFO
                                ''Successfully loaded. Discrete card found: %s''
                                [dev_name d]) s3;
               s5 \<leftarrow> dis_dev_get s4;
               (st, s6) \<leftarrow> get_discrete_state s5;
               let s7 = s6\<lparr>load_discrete_state := st\<rparr>;
               if load_discrete_state s7 = GPU_DISABLE then
                 do {
                   let s8 = emit (Printk KERN_INFO ''Discrete card %s is off. Do nothing.''
                                    [dev_name d]) s7;
                   s9 \<leftarrow> dis_dev_put s8;
                   Some (0, s9)
                 }
               else
                 do {
                   s8 \<leftarrow> discrete_off fw s7;
                   let s9 = emit (Printk KERN_INFO ''Successfully disable discrete card %s''
                                    [dev_name d]) s8;
                   let s10 = s9\<lparr>nb_notifier_call := True\<rparr>;
                   let s11 = emit Register_pm_notifier s10;
                   s12 \<leftarrow> dis_dev_put s11;
                   Some (0, s12)
                 }
             })"

text \<open>The kernel calls of startup after the loop, for the device found.\<close>

definition load_events :: "firmware \<Rightarrow> state \<Rightarrow> pci_dev \<Rightarrow> event list" where
  "load_events fw s d =
     [Printk KERN_INFO ''Successfully loaded. Discrete card found: %s'' [dev_name d]]
     @ acquire_events d
     @ [Pci_read_config_dword (dev_name d) 0]
     @ (if cfg0 d = - 1
        then [Printk KERN_INFO ''Discrete card %s is off. Do nothing.'' [dev_name d]]
        else off_events s d
             @ [Printk KERN_INFO ''Successfully disable discrete card %s'' [dev_name d],
                Register_pm_notifier])
     @ release_events d"

section \<open>A sleep cycle followed by unloading\<close>

text \<open>A firmware whose \<^verbatim>\<open>_OFF\<close> takes effect and whose \<^verbatim>\<open>_ON\<close> fails silently.\<close>

definition fw_on_fails :: firmware where
  "fw_on_fails h m w = (if m = ''_OFF'' then 0xFFFFFFFF else w)"

text \<open>The discrete device claimed by a driver; the statics with the device powered.\<close>

definition claimed_nvidia :: pci_dev where
  "claimed_nvidia = nvidia_gpu\<lparr>driver := Some ''nouveau''\<rparr>"

definition powered_on :: state where
  "powered_on =
     module_initial\<lparr>device_vendor := 0x10DE, load_discrete_state := GPU_ENABLE,
        dis_dev := Some nvidia_gpu, dis_handle := Some 2\<rparr>"

text \<open>
  Startup on a machine with both devices, then a suspend and a resume: the module
  powers the device off, \<^verbatim>\<open>_ON\<close> before the suspend changes nothing, and after the
  resume \<^verbatim>\<open>discrete_off\<close> finds the device reading all-ones and returns. The statics
  this run ends in are \<open>enabled_before_unload\<close>.
\<close>

definition before_unload :: "state option" where
  "before_unload =
     do {
       (r1, s1) \<leftarrow> discrete_disabler_init fw_on_fails [intel_gpu, nvidia_gpu] module_initial;
       (r2, s2) \<leftarrow> discrete_pm_handler fw_on_fails PM_SUSPEND_PREPARE s1;
       (r3, s3) \<leftarrow> discrete_pm_handler fw_on_fails PM_POST_SUSPEND s2;
       Some s3
     }"

definition enabled_before_unload :: state where
  "enabled_before_unload =
     \<lparr>device_vendor = 0x10DE, discrete_state = GPU_ENABLE,
      load_discrete_state = GPU_ENABLE,
      dis_dev = Some (nvidia_gpu\<lparr>cfg0 := 0xFFFFFFFF\<rparr>),
      dis_handle = Some 2, nb_notifier_call = True,
      trace =
        [Printk KERN_INFO ''version %s'' [''0.2''], Acpi_get_name 1,
         Printk KERN_INFO ''Found intergrated VGA device %s: %s''
           [''0000:00:02.0'', ''_SB.PCI0.GFX0''],
         Kfree, Acpi_get_name 2,
         Printk KERN_INFO ''Found discrete VGA device %s: %s''
           [''0000:01:00.0'', ''_SB.PCI0.PEG0.PEGP''],
         Kfree,
         Printk KERN_INFO ''Successfully loaded. Discrete card found: %s''
           [''0000:01:00.0''],
         Pm_runtime_get_sync ''0000:00:01.0'',
         Pci_read_config_dword ''0000:01:00.0'' 0,
         Printk KERN_INFO ''turning discrete off'' [],
         Pci_read_config_dword ''0000:01:00.0'' 0,
         Printk KERN_INFO ''disabling discrete grapics'' [],
         Acpi_evaluate_object (Some 2) ''_OFF'',
         Printk KERN_INFO ''Successfully disable discrete card %s''
           [''0000:01:00.0''],
         Register_pm_notifier, Pm_runtime_put_sync ''0000:00:01.0'',
         Pm_runtime_get_sync ''0000:00:01.0'',
         Printk KERN_INFO ''turn discrete on'' [],
         Pci_read_config_dword ''0000:01:00.0'' 0,
         Printk KERN_INFO ''enabling discrete graphics'' [],
         Acpi_evaluate_object (Some 2) ''_ON'',
         Pm_runtime_put_sync ''0000:00:01.0'',
         Pm_runtime_get_sync ''0000:00:01.0'',
         Printk KERN_INFO ''turning discrete off'' [],
         Pci_read_config_dword ''0000:01:00.0'' 0,
         Pm_runtime_put_sync ''0000:00:01.0'']\<rparr>"

section \<open>Words\<close>

lemma all_ones_iff: "(NOT (w::u32) = 0) = (w = - 1)"
  by (metis bit.compl_zero bit.double_compl)

lemma all_bits_iff: "(\<forall>n<32. bit (w::u32) n) = (w = - 1)"
  by (auto simp: bit_eq_iff bit_simps)

lemma hex_minus_one: "(0xFFFFFFFF :: u32) = - 1"
  by simp

section \<open>The power state oracle\<close>

text \<open>
  C7. For every dword the discrete device returns at offset 0, \<^verbatim>\<open>get_discrete_state\<close>
  returns \<open>GPU_DISABLE\<close> if and only if all 32 bits are set (the dword is
  \<open>0xFFFFFFFF\<close>) and \<open>GPU_ENABLE\<close> otherwise. The statics are left as they were: the
  state after the call is the state before it with the configuration read added to the
  trace.
\<close>

theorem get_discrete_state_oracle:
  assumes "dis_dev s = Some d"
  shows "\<exists>r. get_discrete_state s
            = Some (r, s\<lparr>trace := trace s @ [Pci_read_config_dword (dev_name d) 0]\<rparr>)
          \<and> (r = GPU_DISABLE \<or> r = GPU_ENABLE)
          \<and> ((r = GPU_DISABLE) = (\<forall>n<32. bit (cfg0 d) n))
          \<and> ((r = GPU_DISABLE) = (cfg0 d = 0xFFFFFFFF))"
  using assms
  by (simp add: get_discrete_state_def emit_def all_ones_iff all_bits_iff hex_minus_one Let_def)

theorem get_discrete_state_oracle_witness:
  "dis_dev (module_initial\<lparr>dis_dev := Some nvidia_gpu\<rparr>) = Some nvidia_gpu
   \<and> get_discrete_state (module_initial\<lparr>dis_dev := Some nvidia_gpu\<rparr>)
       = Some (GPU_ENABLE,
               module_initial\<lparr>dis_dev := Some nvidia_gpu,
                  trace := [Pci_read_config_dword ''0000:01:00.0'' 0]\<rparr>)
   \<and> cfg0 nvidia_gpu \<noteq> 0xFFFFFFFF"
  using get_discrete_state_oracle [of "module_initial\<lparr>dis_dev := Some nvidia_gpu\<rparr>" nvidia_gpu]
  by (auto simp: module_initial_def nvidia_gpu_def)

section \<open>Helper equations\<close>

lemma new_events_append: "trace s' = trace s @ es \<Longrightarrow> new_events s s' = es"
  by (simp add: new_events_def)

lemma get_discrete_state_eq:
  "dis_dev s = Some d \<Longrightarrow>
   get_discrete_state s
     = Some (if cfg0 d = - 1 then GPU_DISABLE else GPU_ENABLE,
             s\<lparr>trace := trace s @ [Pci_read_config_dword (dev_name d) 0]\<rparr>)"
  by (simp add: get_discrete_state_def emit_def all_ones_iff Let_def)

lemma dis_dev_get_eq:
  "dis_dev s = Some d \<Longrightarrow> dis_dev_get s = Some (s\<lparr>trace := trace s @ acquire_events d\<rparr>)"
  by (simp add: dis_dev_get_def acquire_events_def emit_def split: option.splits)

lemma dis_dev_put_eq:
  "dis_dev s = Some d \<Longrightarrow> dis_dev_put s = Some (s\<lparr>trace := trace s @ release_events d\<rparr>)"
  by (simp add: dis_dev_put_def release_events_def emit_def split: option.splits)

lemma discrete_on_eq:
  "dis_dev s = Some d \<Longrightarrow>
   discrete_on fw s
     = Some (if cfg0 d = - 1
             then s\<lparr>trace := trace s @ on_events s d,
                    dis_dev := Some (d\<lparr>cfg0 := fw (dis_handle s) ''_ON'' (cfg0 d)\<rparr>),
                    discrete_state := GPU_ENABLE\<rparr>
             else s\<lparr>trace := trace s @ on_events s d\<rparr>)"
  by (simp add: discrete_on_def get_discrete_state_eq emit_def acpi_evaluate_object_def
        on_events_def Let_def)

lemma discrete_off_eq:
  "dis_dev s = Some d \<Longrightarrow>
   discrete_off fw s
     = Some (if cfg0 d \<noteq> - 1 \<and> driver d = None
             then s\<lparr>trace := trace s @ off_events s d,
                    dis_dev := Some (d\<lparr>cfg0 := fw (dis_handle s) ''_OFF'' (cfg0 d)\<rparr>),
                    discrete_state := GPU_DISABLE\<rparr>
             else s\<lparr>trace := trace s @ off_events s d\<rparr>)"
  by (auto simp add: discrete_off_def get_discrete_state_eq emit_def acpi_evaluate_object_def
        off_events_def Let_def split: option.splits)

lemma acquire_events_counts [simp]:
  "enable_calls (acquire_events d) = 0" "disable_calls (acquire_events d) = 0"
  "filter is_release (acquire_events d) = []" "filter is_firmware_call (acquire_events d) = []"
  by (simp_all add: acquire_events_def enable_calls_def disable_calls_def split: option.splits)

lemma release_events_counts [simp]:
  "enable_calls (release_events d) = 0" "disable_calls (release_events d) = 0"
  "filter is_acquire (release_events d) = []" "filter is_firmware_call (release_events d) = []"
  by (simp_all add: release_events_def enable_calls_def disable_calls_def split: option.splits)

lemma on_events_counts [simp]:
  "enable_calls (on_events s d) = 1" "disable_calls (on_events s d) = 0"
  "filter is_acquire (on_events s d) = []" "filter is_release (on_events s d) = []"
  by (simp_all add: on_events_def enable_calls_def disable_calls_def)

lemma off_events_counts [simp]:
  "enable_calls (off_events s d) = 0" "disable_calls (off_events s d) = 1"
  "filter is_acquire (off_events s d) = []" "filter is_release (off_events s d) = []"
  by (simp_all add: off_events_def enable_calls_def disable_calls_def split: option.splits)

lemma guard_events_cfg0 [simp]:
  "acquire_events (d\<lparr>cfg0 := w\<rparr>) = acquire_events d"
  "release_events (d\<lparr>cfg0 := w\<rparr>) = release_events d"
  by (simp_all add: acquire_events_def release_events_def)

lemma calls_append [simp]:
  "enable_calls (xs @ ys) = enable_calls xs + enable_calls ys"
  "disable_calls (xs @ ys) = disable_calls xs + disable_calls ys"
  by (simp_all add: enable_calls_def disable_calls_def)

lemma pm_distinct:
  "PM_HIBERNATION_PREPARE \<noteq> PM_POST_HIBERNATION" "PM_HIBERNATION_PREPARE \<noteq> PM_POST_SUSPEND"
  "PM_HIBERNATION_PREPARE \<noteq> PM_POST_RESTORE" "PM_SUSPEND_PREPARE \<noteq> PM_POST_HIBERNATION"
  "PM_SUSPEND_PREPARE \<noteq> PM_POST_SUSPEND" "PM_SUSPEND_PREPARE \<noteq> PM_POST_RESTORE"
  by (simp_all add: PM_HIBERNATION_PREPARE_def PM_POST_HIBERNATION_def PM_SUSPEND_PREPARE_def
        PM_POST_SUSPEND_def PM_POST_RESTORE_def)

lemma handler_wake:
  assumes "dis_dev s = Some d"
    and "load_discrete_state s = GPU_ENABLE" and "discrete_state s = GPU_DISABLE"
    and "ev = PM_HIBERNATION_PREPARE \<or> ev = PM_SUSPEND_PREPARE"
  shows "\<exists>s'. discrete_pm_handler fw ev s = Some (0, s')
           \<and> new_events s s' = acquire_events d @ on_events s d @ release_events d"
  using assms
  by (auto simp: discrete_pm_handler_def dis_dev_get_eq discrete_on_eq dis_dev_put_eq
        on_events_def new_events_def)

lemma handler_sleep:
  assumes "dis_dev s = Some d"
    and "load_discrete_state s = GPU_ENABLE" and "discrete_state s = GPU_ENABLE"
    and "ev = PM_POST_HIBERNATION \<or> ev = PM_POST_SUSPEND \<or> ev = PM_POST_RESTORE"
  shows "\<exists>s'. discrete_pm_handler fw ev s = Some (0, s')
           \<and> new_events s s' = acquire_events d @ off_events s d @ release_events d"
  using assms
  by (auto simp: discrete_pm_handler_def dis_dev_get_eq discrete_off_eq dis_dev_put_eq
        off_events_def new_events_def pm_distinct pm_distinct [symmetric])

lemma handler_idle:
  assumes "\<not> ((ev = PM_HIBERNATION_PREPARE \<or> ev = PM_SUSPEND_PREPARE)
              \<and> load_discrete_state s = GPU_ENABLE \<and> discrete_state s = GPU_DISABLE)"
    and "\<not> ((ev = PM_POST_HIBERNATION \<or> ev = PM_POST_SUSPEND \<or> ev = PM_POST_RESTORE)
              \<and> load_discrete_state s = GPU_ENABLE \<and> discrete_state s = GPU_ENABLE)"
  shows "discrete_pm_handler fw ev s = Some (0, s)"
  using assms by (auto simp: discrete_pm_handler_def)

lemma on_off_events_trace [simp]:
  "on_events (s\<lparr>trace := tr\<rparr>) d = on_events s d"
  "off_events (s\<lparr>trace := tr\<rparr>) d = off_events s d"
  by (simp_all add: on_events_def off_events_def split: option.splits)

lemma on_events_firmware:
  "filter is_firmware_call (on_events s d)
     = (if cfg0 d = - 1 then [Acpi_evaluate_object (dis_handle s) ''_ON''] else [])"
  by (simp add: on_events_def)

lemma off_events_firmware:
  "filter is_firmware_call (off_events s d)
     = (if cfg0 d \<noteq> - 1 \<and> driver d = None
        then [Acpi_evaluate_object (dis_handle s) ''_OFF''] else [])"
  by (simp add: off_events_def split: option.splits)

lemma handler_wake_steps:
  assumes "dis_dev s = Some d"
    and "load_discrete_state s = GPU_ENABLE" and "discrete_state s = GPU_DISABLE"
    and "ev = PM_HIBERNATION_PREPARE \<or> ev = PM_SUSPEND_PREPARE"
  shows "\<exists>s1 s2 s'. dis_dev_get s = Some s1 \<and> discrete_on fw s1 = Some s2
           \<and> dis_dev_put s2 = Some s'
           \<and> discrete_pm_handler fw ev s = Some (0, s')
           \<and> new_events s s' = acquire_events d @ on_events s d @ release_events d
           \<and> discrete_state s' = (if cfg0 d = - 1 then GPU_ENABLE else GPU_DISABLE)"
  using assms
  by (auto simp: discrete_pm_handler_def dis_dev_get_eq discrete_on_eq dis_dev_put_eq
        new_events_def)

lemma handler_sleep_steps:
  assumes "dis_dev s = Some d"
    and "load_discrete_state s = GPU_ENABLE" and "discrete_state s = GPU_ENABLE"
    and "ev = PM_POST_HIBERNATION \<or> ev = PM_POST_SUSPEND \<or> ev = PM_POST_RESTORE"
  shows "\<exists>s1 s2 s'. dis_dev_get s = Some s1 \<and> discrete_off fw s1 = Some s2
           \<and> dis_dev_put s2 = Some s'
           \<and> discrete_pm_handler fw ev s = Some (0, s')
           \<and> new_events s s' = acquire_events d @ off_events s d @ release_events d
           \<and> discrete_state s'
               = (if cfg0 d \<noteq> - 1 \<and> driver d = None then GPU_DISABLE else GPU_ENABLE)"
  using assms
  by (auto simp: discrete_pm_handler_def dis_dev_get_eq discrete_off_eq dis_dev_put_eq
        new_events_def pm_distinct pm_distinct [symmetric])

section \<open>The sleep-cycle notifier\<close>

text \<open>
  C5. Once a discrete device is set, \<^verbatim>\<open>discrete_pm_handler\<close> follows the event matrix.
  Exactly when the event is \<open>PM_HIBERNATION_PREPARE\<close> or \<open>PM_SUSPEND_PREPARE\<close>, the state
  at load was \<open>GPU_ENABLE\<close> and the current state is \<open>GPU_DISABLE\<close>, its result is that of
  \<^verbatim>\<open>dis_dev_get\<close>, then \<^verbatim>\<open>discrete_on\<close>, then \<^verbatim>\<open>dis_dev_put\<close>: \<^verbatim>\<open>_ON\<close> is evaluated
  when the device reads all-ones and \<open>discrete_state\<close> becomes \<open>GPU_ENABLE\<close>. Exactly when
  the event is \<open>PM_POST_HIBERNATION\<close>, \<open>PM_POST_SUSPEND\<close> or \<open>PM_POST_RESTORE\<close>, the state
  at load was \<open>GPU_ENABLE\<close> and the current state is \<open>GPU_ENABLE\<close>, its result is that of
  \<^verbatim>\<open>dis_dev_get\<close>, then \<^verbatim>\<open>discrete_off\<close>, then \<^verbatim>\<open>dis_dev_put\<close>: \<^verbatim>\<open>_OFF\<close> is
  evaluated when the device does not read all-ones and no driver claims it, and
  \<open>discrete_state\<close> becomes \<open>GPU_DISABLE\<close>. In every other case (as on
  \<open>PM_RESTORE_PREPARE\<close>) the state is left as it was. The log line of a transition
  appears once exactly when it is called, and a transition is wrapped in the guard: the
  new kernel calls are those of \<^verbatim>\<open>dis_dev_get\<close>, then calls that are neither an
  acquisition nor a release, then those of \<^verbatim>\<open>dis_dev_put\<close>.
\<close>

theorem discrete_pm_handler_matrix:
  assumes "dis_dev s = Some d"
  shows "\<exists>s' inner. discrete_pm_handler fw ev s = Some (0, s')
      \<and> enable_calls (new_events s s')
          = (if (ev = PM_HIBERNATION_PREPARE \<or> ev = PM_SUSPEND_PREPARE)
                \<and> load_discrete_state s = GPU_ENABLE \<and> discrete_state s = GPU_DISABLE
             then 1 else 0)
      \<and> disable_calls (new_events s s')
          = (if (ev = PM_POST_HIBERNATION \<or> ev = PM_POST_SUSPEND \<or> ev = PM_POST_RESTORE)
                \<and> load_discrete_state s = GPU_ENABLE \<and> discrete_state s = GPU_ENABLE
             then 1 else 0)
      \<and> (if enable_calls (new_events s s') + disable_calls (new_events s s') = 0
          then s' = s
          else new_events s s' = acquire_events d @ inner @ release_events d
               \<and> filter is_acquire inner = [] \<and> filter is_release inner = [])
      \<and> (if (ev = PM_HIBERNATION_PREPARE \<or> ev = PM_SUSPEND_PREPARE)
             \<and> load_discrete_state s = GPU_ENABLE \<and> discrete_state s = GPU_DISABLE
          then (\<exists>s1 s2. dis_dev_get s = Some s1 \<and> discrete_on fw s1 = Some s2
                  \<and> dis_dev_put s2 = Some s')
               \<and> filter is_firmware_call (new_events s s')
                   = (if cfg0 d = 0xFFFFFFFF
                      then [Acpi_evaluate_object (dis_handle s) ''_ON''] else [])
               \<and> discrete_state s'
                   = (if cfg0 d = 0xFFFFFFFF then GPU_ENABLE else GPU_DISABLE)
          else if (ev = PM_POST_HIBERNATION \<or> ev = PM_POST_SUSPEND \<or> ev = PM_POST_RESTORE)
                  \<and> load_discrete_state s = GPU_ENABLE \<and> discrete_state s = GPU_ENABLE
          then (\<exists>s1 s2. dis_dev_get s = Some s1 \<and> discrete_off fw s1 = Some s2
                  \<and> dis_dev_put s2 = Some s')
               \<and> filter is_firmware_call (new_events s s')
                   = (if cfg0 d \<noteq> 0xFFFFFFFF \<and> driver d = None
                      then [Acpi_evaluate_object (dis_handle s) ''_OFF''] else [])
               \<and> discrete_state s'
                   = (if cfg0 d \<noteq> 0xFFFFFFFF \<and> driver d = None
                      then GPU_DISABLE else GPU_ENABLE)
          else s' = s)"
proof -
  let ?wake = "(ev = PM_HIBERNATION_PREPARE \<or> ev = PM_SUSPEND_PREPARE)
                \<and> load_discrete_state s = GPU_ENABLE \<and> discrete_state s = GPU_DISABLE"
  let ?sleep = "(ev = PM_POST_HIBERNATION \<or> ev = PM_POST_SUSPEND \<or> ev = PM_POST_RESTORE)
                \<and> load_discrete_state s = GPU_ENABLE \<and> discrete_state s = GPU_ENABLE"
  consider (wake) ?wake | (sleep) ?sleep | (idle) "\<not> ?wake" "\<not> ?sleep" by blast
  then show ?thesis
  proof cases
    case wake
    then obtain s1 s2 s' where h: "dis_dev_get s = Some s1" "discrete_on fw s1 = Some s2"
      "dis_dev_put s2 = Some s'" "discrete_pm_handler fw ev s = Some (0, s')"
      "new_events s s' = acquire_events d @ on_events s d @ release_events d"
      "discrete_state s' = (if cfg0 d = - 1 then GPU_ENABLE else GPU_DISABLE)"
      using handler_wake_steps [OF assms, of ev fw] by blast
    have ns: "\<not> ?sleep" using wake by auto
    have steps: "\<exists>s1 s2. dis_dev_get s = Some s1 \<and> discrete_on fw s1 = Some s2
                  \<and> dis_dev_put s2 = Some s'"
      using h(1-3) by blast
    have fwc: "filter is_firmware_call (new_events s s')
                 = (if cfg0 d = 0xFFFFFFFF
                    then [Acpi_evaluate_object (dis_handle s) ''_ON''] else [])"
      by (simp add: h(5) on_events_firmware hex_minus_one)
    have ds: "discrete_state s' = (if cfg0 d = 0xFFFFFFFF then GPU_ENABLE else GPU_DISABLE)"
      by (simp add: h(6) hex_minus_one)
    have cnt: "enable_calls (new_events s s') = 1" "disable_calls (new_events s s') = 0"
      "filter is_acquire (on_events s d) = []" "filter is_release (on_events s d) = []"
      by (simp_all add: h(5))
    show ?thesis
      apply (rule exI [of _ s'], rule exI [of _ "on_events s d"])
      using wake ns h(4,5) steps fwc ds cnt by simp
  next
    case sleep
    then obtain s1 s2 s' where h: "dis_dev_get s = Some s1" "discrete_off fw s1 = Some s2"
      "dis_dev_put s2 = Some s'" "discrete_pm_handler fw ev s = Some (0, s')"
      "new_events s s' = acquire_events d @ off_events s d @ release_events d"
      "discrete_state s'
         = (if cfg0 d \<noteq> - 1 \<and> driver d = None then GPU_DISABLE else GPU_ENABLE)"
      using handler_sleep_steps [OF assms, of ev fw] by blast
    have nw: "\<not> ?wake" using sleep by auto
    have steps: "\<exists>s1 s2. dis_dev_get s = Some s1 \<and> discrete_off fw s1 = Some s2
                  \<and> dis_dev_put s2 = Some s'"
      using h(1-3) by blast
    have fwc: "filter is_firmware_call (new_events s s')
                 = (if cfg0 d \<noteq> 0xFFFFFFFF \<and> driver d = None
                    then [Acpi_evaluate_object (dis_handle s) ''_OFF''] else [])"
      by (simp add: h(5) off_events_firmware hex_minus_one)
    have ds: "discrete_state s'
                = (if cfg0 d \<noteq> 0xFFFFFFFF \<and> driver d = None then GPU_DISABLE else GPU_ENABLE)"
      by (simp add: h(6) hex_minus_one)
    have cnt: "enable_calls (new_events s s') = 0" "disable_calls (new_events s s') = 1"
      "filter is_acquire (off_events s d) = []" "filter is_release (off_events s d) = []"
      by (simp_all add: h(5))
    show ?thesis
      apply (rule exI [of _ s'], rule exI [of _ "off_events s d"])
      using sleep nw h(4,5) steps fwc ds cnt by simp
  next
    case idle
    then have "discrete_pm_handler fw ev s = Some (0, s)"
      by (rule handler_idle)
    with idle show ?thesis
      by (intro exI [of _ s] exI [of _ "[]"])
        (simp add: new_events_def enable_calls_def disable_calls_def)
  qed
qed

theorem discrete_pm_handler_matrix_witness:
  "dis_dev powered_off = Some (nvidia_gpu\<lparr>cfg0 := 0xFFFFFFFF\<rparr>)
   \<and> map_option fst (discrete_pm_handler fw_works PM_SUSPEND_PREPARE powered_off) = Some 0
   \<and> map_option (\<lambda>r. new_events powered_off (snd r))
        (discrete_pm_handler fw_works PM_SUSPEND_PREPARE powered_off)
       = Some [Pm_runtime_get_sync ''0000:00:01.0'',
               Printk KERN_INFO ''turn discrete on'' [],
               Pci_read_config_dword ''0000:01:00.0'' 0,
               Printk KERN_INFO ''enabling discrete graphics'' [],
               Acpi_evaluate_object (Some 2) ''_ON'',
               Pm_runtime_put_sync ''0000:00:01.0'']
   \<and> map_option (\<lambda>r. discrete_state (snd r))
        (discrete_pm_handler fw_works PM_SUSPEND_PREPARE powered_off) = Some GPU_ENABLE"
  using discrete_pm_handler_matrix
    [of powered_off "nvidia_gpu\<lparr>cfg0 := 0xFFFFFFFF\<rparr>" fw_works PM_SUSPEND_PREPARE]
  by (simp add: powered_off_def module_initial_def nvidia_gpu_def discrete_pm_handler_def
        dis_dev_get_eq discrete_on_eq dis_dev_put_eq on_events_def acquire_events_def
        release_events_def new_events_def)

text \<open>
  C10. Once a discrete device is set, \<^verbatim>\<open>discrete_pm_handler\<close> returns 0 for every
  event type, also for one that is none of the six of \<^verbatim>\<open>suspend.h\<close>; for such an
  event type the state after the call is the state before it.
\<close>

theorem discrete_pm_handler_returns_zero:
  assumes "dis_dev s = Some d"
  shows "\<exists>s'. discrete_pm_handler fw ev s = Some (0, s')
           \<and> (ev \<notin> {PM_HIBERNATION_PREPARE, PM_SUSPEND_PREPARE, PM_POST_HIBERNATION,
                      PM_POST_SUSPEND, PM_POST_RESTORE, PM_RESTORE_PREPARE}
                \<longrightarrow> s' = s)"
proof -
  let ?wake = "(ev = PM_HIBERNATION_PREPARE \<or> ev = PM_SUSPEND_PREPARE)
                \<and> load_discrete_state s = GPU_ENABLE \<and> discrete_state s = GPU_DISABLE"
  let ?sleep = "(ev = PM_POST_HIBERNATION \<or> ev = PM_POST_SUSPEND \<or> ev = PM_POST_RESTORE)
                \<and> load_discrete_state s = GPU_ENABLE \<and> discrete_state s = GPU_ENABLE"
  consider (wake) ?wake | (sleep) ?sleep | (idle) "\<not> ?wake" "\<not> ?sleep" by blast
  then show ?thesis
  proof cases
    case wake
    with handler_wake [OF assms, of ev fw] show ?thesis by auto
  next
    case sleep
    with handler_sleep [OF assms, of ev fw] show ?thesis by auto
  next
    case idle
    then have "discrete_pm_handler fw ev s = Some (0, s)"
      by (rule handler_idle)
    then show ?thesis by simp
  qed
qed

theorem discrete_pm_handler_returns_zero_witness:
  "dis_dev powered_off = Some (nvidia_gpu\<lparr>cfg0 := 0xFFFFFFFF\<rparr>)
   \<and> 9 \<notin> {PM_HIBERNATION_PREPARE, PM_SUSPEND_PREPARE, PM_POST_HIBERNATION,
             PM_POST_SUSPEND, PM_POST_RESTORE, PM_RESTORE_PREPARE}
   \<and> discrete_pm_handler fw_works 9 powered_off = Some (0, powered_off)"
  using discrete_pm_handler_returns_zero
    [of powered_off "nvidia_gpu\<lparr>cfg0 := 0xFFFFFFFF\<rparr>" fw_works 9]
  by (simp add: powered_off_def module_initial_def PM_HIBERNATION_PREPARE_def
        PM_SUSPEND_PREPARE_def PM_POST_HIBERNATION_def PM_POST_SUSPEND_def
        PM_POST_RESTORE_def PM_RESTORE_PREPARE_def)

section \<open>The transitions\<close>

text \<open>
  C3, as the code has it. For every state in which the discrete device is claimed by a
  driver, \<^verbatim>\<open>discrete_off\<close> makes no firmware call and leaves every static as it was,
  \<open>discrete_state\<close> among them: it stays what it was before the call, which need not be
  \<open>GPU_ENABLE\<close>. The function returns no value; the refusal shows only as the warning
  in the log, written exactly when the device does not read as all-ones.
\<close>

theorem discrete_off_claimed:
  assumes "dis_dev s = Some d" and "driver d = Some drv"
  shows "\<exists>s'. discrete_off fw s = Some s'
           \<and> filter is_firmware_call (new_events s s') = []
           \<and> s' = s\<lparr>trace := trace s'\<rparr>
           \<and> discrete_state s' = discrete_state s
           \<and> (Printk KERN_WARNING ''device %s is in use by driver '%s', refusing OFF''
                 [dev_name d, drv] \<in> set (new_events s s')) = (cfg0 d \<noteq> 0xFFFFFFFF)"
  using assms
  by (simp add: discrete_off_eq off_events_def new_events_def hex_minus_one)

theorem discrete_off_claimed_witness:
  "dis_dev refused_at_load = Some (nvidia_gpu\<lparr>driver := Some ''nouveau''\<rparr>)
   \<and> driver (nvidia_gpu\<lparr>driver := Some ''nouveau''\<rparr>) = Some ''nouveau''
   \<and> discrete_off fw_works refused_at_load
       = Some (refused_at_load\<lparr>trace :=
            [Printk KERN_INFO ''turning discrete off'' [],
             Pci_read_config_dword ''0000:01:00.0'' 0,
             Printk KERN_WARNING ''device %s is in use by driver '%s', refusing OFF''
               [''0000:01:00.0'', ''nouveau'']]\<rparr>)"
  using discrete_off_claimed [of refused_at_load "nvidia_gpu\<lparr>driver := Some ''nouveau''\<rparr>"
      "''nouveau''" fw_works]
  by (simp add: refused_at_load_def module_initial_def nvidia_gpu_def discrete_off_eq
        off_events_def)

text \<open>
  At startup \<open>discrete_state\<close> is still \<open>GPU_UNCHANGED\<close> when the claimed device is
  refused, and it stays so: the state after the refusal is not \<open>GPU_ENABLE\<close>.
\<close>

theorem discrete_off_claimed_counterexample:
  "driver (nvidia_gpu\<lparr>driver := Some ''nouveau''\<rparr>) = Some ''nouveau''
   \<and> dis_dev refused_at_load = Some (nvidia_gpu\<lparr>driver := Some ''nouveau''\<rparr>)
   \<and> map_option discrete_state (discrete_off fw_works refused_at_load) = Some GPU_UNCHANGED
   \<and> map_option discrete_state (discrete_off fw_works refused_at_load) \<noteq> Some GPU_ENABLE"
  by (simp add: refused_at_load_def module_initial_def nvidia_gpu_def discrete_off_eq
        off_events_def)

section \<open>The scan of the devices\<close>

lemma scan_skip:
  "\<not> graphics_class p \<Longrightarrow> scan (p # ps) l s = scan ps l s"
  by (simp add: graphics_class_def)

lemma scan_no_handle:
  "graphics_class p \<Longrightarrow> handle p = None \<Longrightarrow>
   scan (p # ps) l s
     = scan ps l (emit (Printk KERN_WARNING ''can not find ACPI handle for VGA device %s''
                          [dev_name p]) s)"
  by (auto simp add: graphics_class_def)

lemma scan_integrated:
  "integrated_candidate p \<Longrightarrow> handle p = Some h \<Longrightarrow>
   scan (p # ps) l s
     = (if dis_handle s \<noteq> None
        then (l\<lparr>igd_dev := Some p, igd_handle := Some h\<rparr>, found_integrated p h s)
        else scan ps (l\<lparr>igd_dev := Some p, igd_handle := Some h\<rparr>) (found_integrated p h s))"
  by (auto simp add: integrated_candidate_def graphics_class_def found_integrated_def emit_def Let_def)

lemma scan_discrete:
  "discrete_candidate p \<Longrightarrow> handle p = Some h \<Longrightarrow>
   scan (p # ps) l s
     = (if igd_handle l \<noteq> None then (l, found_discrete p h s)
        else scan ps l (found_discrete p h s))"
  by (auto simp add: discrete_candidate_def graphics_class_def found_discrete_def emit_def Let_def)

lemma candidate_cases:
  obtains (skip) "\<not> graphics_class p"
  | (no_handle) "graphics_class p" "handle p = None"
  | (integrated) h where "integrated_candidate p" "handle p = Some h"
  | (discrete) h where "discrete_candidate p" "handle p = Some h"
  by (cases "handle p") (auto simp: integrated_candidate_def discrete_candidate_def)

lemma found_fields [simp]:
  "dis_handle (found_integrated p h s) = dis_handle s"
  "dis_dev (found_integrated p h s) = dis_dev s"
  "dis_handle (found_discrete p h s) = Some h"
  "dis_dev (found_discrete p h s) = Some p"
  "dis_handle (emit e s) = dis_handle s"
  "dis_dev (emit e s) = dis_dev s"
  by (simp_all add: found_integrated_def found_discrete_def emit_def)

lemma candidates_exclusive:
  "integrated_candidate p \<Longrightarrow> \<not> discrete_candidate p"
  "\<not> graphics_class p \<Longrightarrow> \<not> discrete_candidate p \<and> \<not> integrated_candidate p"
  "handle p = None \<Longrightarrow> \<not> discrete_candidate p \<and> \<not> integrated_candidate p"
  by (auto simp: integrated_candidate_def discrete_candidate_def)

lemma both_from_Cons:
  "both_from i d (p # ps) = both_from (i \<or> integrated_candidate p) (d \<or> discrete_candidate p) ps"
  by (auto simp: both_from_def)

lemma both_from_Nil: "both_from i d [] = (i \<and> d)"
  by (simp add: both_from_def)

lemma both_from_start: "i \<Longrightarrow> d \<Longrightarrow> both_from i d ps"
  by (simp add: both_from_def)

declare scan.simps(2) [simp del]

lemma scan_stops_after:
  assumes "\<not> both_from (igd_handle l \<noteq> None) (dis_handle s \<noteq> None) (butlast pre)"
    and "post = [] \<or> both_from (igd_handle l \<noteq> None) (dis_handle s \<noteq> None) pre"
  shows "scan (pre @ post) l s = scan pre l s"
  using assms
proof (induction pre arbitrary: l s)
  case Nil
  then show ?case by (auto simp: both_from_Nil)
next
  case (Cons p ps)
  show ?case
  proof (cases "ps = []")
    case True
    with Cons.prems have nb: "\<not> (igd_handle l \<noteq> None \<and> dis_handle s \<noteq> None)"
      by (simp add: both_from_Nil)
    show ?thesis
    proof (cases "post = []")
      case True
      then show ?thesis by simp
    next
      case False
      with Cons.prems(2) \<open>ps = []\<close>
      have b: "(igd_handle l \<noteq> None \<or> integrated_candidate p)
               \<and> (dis_handle s \<noteq> None \<or> discrete_candidate p)"
        by (simp add: both_from_Cons both_from_Nil)
      show ?thesis
      proof (cases p rule: candidate_cases)
        case skip
        with b nb show ?thesis using candidates_exclusive(2) by blast
      next
        case no_handle
        with b nb show ?thesis using candidates_exclusive(3) by blast
      next
        case (integrated h)
        with b have "dis_handle s \<noteq> None" using candidates_exclusive(1) by blast
        with integrated \<open>ps = []\<close> show ?thesis
          by (simp add: scan_integrated [OF integrated])
      next
        case (discrete h)
        with b have "igd_handle l \<noteq> None" using candidates_exclusive(1) by blast
        with discrete \<open>ps = []\<close> show ?thesis
          by (simp add: scan_discrete [OF discrete])
      qed
    qed
  next
    case False
    then have bl: "butlast (p # ps) = p # butlast ps" by simp
    from Cons.prems(1) have nb':
      "\<not> both_from (igd_handle l \<noteq> None \<or> integrated_candidate p)
            (dis_handle s \<noteq> None \<or> discrete_candidate p) (butlast ps)"
      unfolding bl both_from_Cons .
    then have nb: "\<not> ((igd_handle l \<noteq> None \<or> integrated_candidate p)
                       \<and> (dis_handle s \<noteq> None \<or> discrete_candidate p))"
      by (auto simp: both_from_def)
    from Cons.prems(2) have st:
      "post = [] \<or> both_from (igd_handle l \<noteq> None \<or> integrated_candidate p)
            (dis_handle s \<noteq> None \<or> discrete_candidate p) ps"
      unfolding both_from_Cons .
    show ?thesis
    proof (cases p rule: candidate_cases)
      case skip
      then have n: "\<not> discrete_candidate p" "\<not> integrated_candidate p"
        by (simp_all add: candidates_exclusive)
      have "scan (ps @ post) l s = scan ps l s"
        using nb' st n by (intro Cons.IH) simp_all
      with skip show ?thesis
        by (simp add: scan_skip [OF skip])
    next
      case no_handle
      then have n: "\<not> discrete_candidate p" "\<not> integrated_candidate p"
        by (simp_all add: candidates_exclusive)
      let ?s = "emit (Printk KERN_WARNING ''can not find ACPI handle for VGA device %s''
                          [dev_name p]) s"
      have "scan (ps @ post) l ?s = scan ps l ?s"
        using nb' st n by (intro Cons.IH) simp_all
      with no_handle show ?thesis
        by (simp add: scan_no_handle [OF no_handle])
    next
      case (integrated h)
      then have nd: "\<not> discrete_candidate p" by (simp add: candidates_exclusive)
      with integrated nb have dn: "dis_handle s = None" by auto
      let ?l = "l\<lparr>igd_dev := Some p, igd_handle := Some h\<rparr>"
      let ?s = "found_integrated p h s"
      have "scan (ps @ post) ?l ?s = scan ps ?l ?s"
        using nb' st nd integrated(1) by (intro Cons.IH) simp_all
      with integrated dn show ?thesis
        by (simp add: scan_integrated [OF integrated])
    next
      case (discrete h)
      then have ni: "\<not> integrated_candidate p" using candidates_exclusive(1) by blast
      with discrete nb have dn: "igd_handle l = None" by auto
      let ?s = "found_discrete p h s"
      have "scan (ps @ post) l ?s = scan ps l ?s"
        using nb' st ni discrete(1) by (intro Cons.IH) simp_all
      with discrete dn show ?thesis
        by (simp add: scan_discrete [OF discrete])
    qed
  qed
qed

lemma scan_one:
  "scan [p] l s
     = (if \<not> graphics_class p then (l, s)
        else case handle p of
          None \<Rightarrow> (l, emit (Printk KERN_WARNING ''can not find ACPI handle for VGA device %s''
                            [dev_name p]) s)
        | Some h \<Rightarrow>
            if vendor p = PCI_VENDOR_ID_INTEL
            then (l\<lparr>igd_dev := Some p, igd_handle := Some h\<rparr>, found_integrated p h s)
            else (l, found_discrete p h s))"
  by (auto simp: scan.simps(2) graphics_class_def found_integrated_def found_discrete_def
        Let_def split: option.splits)

lemma scan_last_wins:
  assumes "\<not> both_from (igd_handle l \<noteq> None) (dis_handle s \<noteq> None) (butlast pre)"
  shows "dis_dev (snd (scan pre l s))
           = (case filter discrete_candidate pre of
                [] \<Rightarrow> dis_dev s
              | c # cs \<Rightarrow> Some (last (c # cs)))"
  using assms
proof (induction pre arbitrary: l s)
  case Nil
  then show ?case by simp
next
  case (Cons p ps)
  show ?case
  proof (cases "ps = []")
    case True
    then show ?thesis
      by (auto simp: scan_one discrete_candidate_def split: option.splits)
  next
    case False
    then have bl: "butlast (p # ps) = p # butlast ps" by simp
    from Cons.prems(1) have nb':
      "\<not> both_from (igd_handle l \<noteq> None \<or> integrated_candidate p)
            (dis_handle s \<noteq> None \<or> discrete_candidate p) (butlast ps)"
      unfolding bl both_from_Cons .
    then have nb: "\<not> ((igd_handle l \<noteq> None \<or> integrated_candidate p)
                       \<and> (dis_handle s \<noteq> None \<or> discrete_candidate p))"
      by (auto simp: both_from_def)
    have keep: "\<And>c cs d. (case filter discrete_candidate ps of [] \<Rightarrow> d
                    | c # cs \<Rightarrow> Some (last (c # cs)))
                 = (case filter discrete_candidate ps of [] \<Rightarrow> d
                    | c # cs \<Rightarrow> Some (last (p # c # cs)))"
      by (simp split: list.splits)
    show ?thesis
    proof (cases p rule: candidate_cases)
      case skip
      then have n: "\<not> discrete_candidate p" "\<not> integrated_candidate p"
        by (simp_all add: candidates_exclusive)
      have "dis_dev (snd (scan ps l s))
              = (case filter discrete_candidate ps of [] \<Rightarrow> dis_dev s
                 | c # cs \<Rightarrow> Some (last (c # cs)))"
        using nb' n by (intro Cons.IH) simp_all
      with skip n show ?thesis
        by (simp add: scan_skip [OF skip] split: list.splits)
    next
      case no_handle
      then have n: "\<not> discrete_candidate p" "\<not> integrated_candidate p"
        by (simp_all add: candidates_exclusive)
      let ?s = "emit (Printk KERN_WARNING ''can not find ACPI handle for VGA device %s''
                          [dev_name p]) s"
      have "dis_dev (snd (scan ps l ?s))
              = (case filter discrete_candidate ps of [] \<Rightarrow> dis_dev ?s
                 | c # cs \<Rightarrow> Some (last (c # cs)))"
        using nb' n by (intro Cons.IH) simp_all
      with no_handle n show ?thesis
        by (simp add: scan_no_handle [OF no_handle] split: list.splits)
    next
      case (integrated h)
      then have nd: "\<not> discrete_candidate p" by (simp add: candidates_exclusive)
      with integrated nb have dn: "dis_handle s = None" by auto
      let ?l = "l\<lparr>igd_dev := Some p, igd_handle := Some h\<rparr>"
      let ?s = "found_integrated p h s"
      have "dis_dev (snd (scan ps ?l ?s))
              = (case filter discrete_candidate ps of [] \<Rightarrow> dis_dev ?s
                 | c # cs \<Rightarrow> Some (last (c # cs)))"
        using nb' nd integrated(1) by (intro Cons.IH) simp_all
      with integrated dn nd show ?thesis
        by (simp add: scan_integrated [OF integrated] split: list.splits)
    next
      case (discrete h)
      then have ni: "\<not> integrated_candidate p" using candidates_exclusive(1) by blast
      with discrete nb have dn: "igd_handle l = None" by auto
      let ?s = "found_discrete p h s"
      have "dis_dev (snd (scan ps l ?s))
              = (case filter discrete_candidate ps of [] \<Rightarrow> dis_dev ?s
                 | c # cs \<Rightarrow> Some (last (c # cs)))"
        using nb' ni discrete(1) by (intro Cons.IH) simp_all
      with discrete dn show ?thesis
        by (simp add: scan_discrete [OF discrete] split: list.splits)
    qed
  qed
qed

lemma scan_frame:
  "device_vendor (snd (scan ps l s)) = device_vendor s
   \<and> discrete_state (snd (scan ps l s)) = discrete_state s
   \<and> load_discrete_state (snd (scan ps l s)) = load_discrete_state s
   \<and> nb_notifier_call (snd (scan ps l s)) = nb_notifier_call s
   \<and> (\<exists>es. trace (snd (scan ps l s)) = trace s @ es \<and> list_all is_scan_event es)"
proof (induction ps arbitrary: l s)
  case Nil
  then show ?case by simp
next
  case (Cons p ps)
  show ?case
  proof (cases p rule: candidate_cases)
    case skip
    with Cons.IH [of l s] show ?thesis
      by (simp add: scan_skip [OF skip])
  next
    case no_handle
    with Cons.IH [of l "emit (Printk KERN_WARNING ''can not find ACPI handle for VGA device %s''
                          [dev_name p]) s"]
    show ?thesis
      by (auto simp add: scan_no_handle [OF no_handle] emit_def)
  next
    case (integrated h)
    with Cons.IH [of "l\<lparr>igd_dev := Some p, igd_handle := Some h\<rparr>" "found_integrated p h s"]
    show ?thesis
      by (auto simp add: scan_integrated [OF integrated] emit_def found_integrated_def)
  next
    case (discrete h)
    with Cons.IH [of l "found_discrete p h s"]
    show ?thesis
      by (auto simp add: scan_discrete [OF discrete] emit_def found_discrete_def)
  qed
qed

lemma both_from_initial: "both_from False False ps = both_resolved ps"
  by (simp add: both_from_def both_resolved_def)

lemma both_resolved_Nil: "\<not> both_resolved []"
  by (simp add: both_resolved_def)

lemma observed_prefix_split:
  "\<exists>post. devs = observed_prefix devs @ post
          \<and> (post = [] \<or> both_resolved (observed_prefix devs))"
proof (cases "find (\<lambda>n. both_resolved (take n devs)) [0..<length devs]")
  case None
  then show ?thesis by (simp add: observed_prefix_def)
next
  case (Some n)
  then have "both_resolved (take n devs)"
    by (auto simp: find_Some_iff)
  with Some have "devs = observed_prefix devs @ drop n devs
      \<and> (drop n devs = [] \<or> both_resolved (observed_prefix devs))"
    by (simp add: observed_prefix_def)
  then show ?thesis by blast
qed

lemma observed_prefix_shortest: "\<not> both_resolved (butlast (observed_prefix devs))"
proof (cases "find (\<lambda>n. both_resolved (take n devs)) [0..<length devs]")
  case None
  then have all: "\<And>n. n < length devs \<Longrightarrow> \<not> both_resolved (take n devs)"
    by (auto simp: find_None_iff)
  show ?thesis
  proof (cases "devs = []")
    case True
    with None show ?thesis by (simp add: observed_prefix_def both_resolved_Nil)
  next
    case False
    then have "length devs - 1 < length devs" by simp
    from all [OF this] None show ?thesis
      by (simp add: observed_prefix_def butlast_conv_take)
  qed
next
  case (Some n)
  then have n: "n < length devs" "both_resolved (take n devs)"
    and least: "\<And>m. m < n \<Longrightarrow> \<not> both_resolved (take m devs)"
    by (auto simp: find_Some_iff)
  have "n \<noteq> 0"
  proof
    assume "n = 0"
    with n(2) show False by (simp add: both_resolved_Nil)
  qed
  then have "n - 1 < n" by simp
  from least [OF this] n(1) Some show ?thesis
    by (simp add: observed_prefix_def butlast_take)
qed

lemma last_discrete_eq:
  "dis_dev s = None \<Longrightarrow>
   (case filter discrete_candidate ps of [] \<Rightarrow> dis_dev s | c # cs \<Rightarrow> Some (last (c # cs)))
     = last_discrete ps"
  by (simp add: last_discrete_def split: list.splits)

text \<open>
  C9. For every enumeration, the scan started with nothing resolved looks only at the
  observed prefix: the devices up to the one at which both an integrated and a discrete
  candidate have been seen (all of them when that never happens); what comes after has
  no effect. The device in \<open>dis_dev\<close> after the scan is the last discrete candidate of
  that prefix, so among several discrete candidates observed the last one wins.
\<close>

theorem scan_last_discrete_wins:
  assumes "igd_handle l = None" and "dis_handle s = None" and "dis_dev s = None"
  shows "(\<exists>post. devs = observed_prefix devs @ post
             \<and> (post = [] \<or> both_resolved (observed_prefix devs)))
         \<and> \<not> both_resolved (butlast (observed_prefix devs))
         \<and> scan devs l s = scan (observed_prefix devs) l s
         \<and> dis_dev (snd (scan devs l s)) = last_discrete (observed_prefix devs)"
proof -
  obtain post where post: "devs = observed_prefix devs @ post"
      "post = [] \<or> both_resolved (observed_prefix devs)"
    using observed_prefix_split by blast
  have short: "\<not> both_from (igd_handle l \<noteq> None) (dis_handle s \<noteq> None)
                   (butlast (observed_prefix devs))"
    using assms(1,2) by (simp add: both_from_initial observed_prefix_shortest)
  have stop: "post = [] \<or> both_from (igd_handle l \<noteq> None) (dis_handle s \<noteq> None)
                   (observed_prefix devs)"
    using assms(1,2) post(2) by (simp add: both_from_initial)
  have "scan (observed_prefix devs @ post) l s = scan (observed_prefix devs) l s"
    using short stop by (rule scan_stops_after)
  then have eq: "scan devs l s = scan (observed_prefix devs) l s"
    using post(1) by simp
  have "dis_dev (snd (scan (observed_prefix devs) l s)) = last_discrete (observed_prefix devs)"
    using scan_last_wins [OF short] assms(3) by (simp add: last_discrete_eq)
  with eq post observed_prefix_shortest [of devs] show ?thesis
    by auto
qed

lemma ex_candidates:
  "discrete_candidate nvidia_gpu" "discrete_candidate second_nvidia"
  "discrete_candidate third_nvidia" "integrated_candidate intel_gpu"
  "\<not> integrated_candidate nvidia_gpu" "\<not> integrated_candidate second_nvidia"
  "\<not> integrated_candidate third_nvidia" "\<not> discrete_candidate intel_gpu"
  by (simp_all add: discrete_candidate_def integrated_candidate_def graphics_class_def
        nvidia_gpu_def second_nvidia_def third_nvidia_def intel_gpu_def
        PCI_CLASS_DISPLAY_VGA_def PCI_CLASS_DISPLAY_3D_def PCI_CLASS_DISPLAY_OTHER_def
        PCI_VENDOR_ID_INTEL_def)

lemma ex_observed:
  "observed_prefix [nvidia_gpu, second_nvidia, intel_gpu, third_nvidia]
     = [nvidia_gpu, second_nvidia, intel_gpu]"
  by (simp add: observed_prefix_def both_resolved_def ex_candidates upt_rec)

theorem scan_last_discrete_wins_witness:
  "igd_handle \<lparr>igd_dev = None, igd_handle = None\<rparr> = None
   \<and> dis_handle module_initial = None \<and> dis_dev module_initial = None
   \<and> observed_prefix [nvidia_gpu, second_nvidia, intel_gpu, third_nvidia]
       = [nvidia_gpu, second_nvidia, intel_gpu]
   \<and> dis_dev (snd (scan [nvidia_gpu, second_nvidia, intel_gpu, third_nvidia]
                     \<lparr>igd_dev = None, igd_handle = None\<rparr> module_initial))
       = Some second_nvidia"
  using scan_last_discrete_wins [of "\<lparr>igd_dev = None, igd_handle = None\<rparr>" module_initial
      "[nvidia_gpu, second_nvidia, intel_gpu, third_nvidia]"]
  by (auto simp: ex_observed last_discrete_def ex_candidates module_initial_def)

section \<open>Startup after the loop\<close>

lemma scan_events_quiet:
  "list_all is_scan_event es \<Longrightarrow>
   filter is_firmware_call es = [] \<and> power_off_calls es = 0 \<and> disable_calls es = 0
   \<and> count_list es Register_pm_notifier = 0 \<and> filter is_acquire es = []
   \<and> filter is_release es = []"
proof (induction es)
  case Nil
  then show ?case by (simp add: power_off_calls_def disable_calls_def)
next
  case (Cons e es)
  then show ?case
    by (cases e) (auto simp: power_off_calls_def disable_calls_def)
qed

lemma init_unfold: "discrete_disabler_init fw devs s0 = init_rest fw (scanned devs s0)"
  by (simp add: discrete_disabler_init_def init_rest_def scanned_def version_line_def
        Let_def split_def)

lemma init_none:
  assumes "dis_dev (scanned devs s0) = None"
  shows "discrete_disabler_init fw devs s0
           = Some (- ENODEV,
                   emit (Printk KERN_ERR ''No discrete VGA device found!'' []) (scanned devs s0))"
  using assms by (simp add: init_unfold init_rest_def)

lemma init_rest_found:
  assumes "dis_dev s2 = Some d"
  shows "\<exists>s'. init_rest fw s2 = Some (0, s')
           \<and> trace s' = trace s2 @ load_events fw s2 d
           \<and> load_discrete_state s' = (if cfg0 d = - 1 then GPU_DISABLE else GPU_ENABLE)
           \<and> nb_notifier_call s' = (if cfg0 d = - 1 then nb_notifier_call s2 else True)
           \<and> discrete_state s'
               = (if cfg0 d \<noteq> - 1 \<and> driver d = None then GPU_DISABLE else discrete_state s2)
           \<and> dis_dev s'
               = Some (if cfg0 d \<noteq> - 1 \<and> driver d = None
                       then d\<lparr>cfg0 := fw (dis_handle s2) ''_OFF'' (cfg0 d)\<rparr>
                       else d)"
  using assms
  by (auto simp: init_rest_def Let_def dis_dev_get_eq get_discrete_state_eq discrete_off_eq
        dis_dev_put_eq emit_def load_events_def off_events_def)

section \<open>Counting kernel calls\<close>

lemma guard_events_quiet [simp]:
  "power_off_calls (acquire_events d) = 0" "power_off_calls (release_events d) = 0"
  "count_list (acquire_events d) Register_pm_notifier = 0"
  "count_list (release_events d) Register_pm_notifier = 0"
  by (simp_all add: acquire_events_def release_events_def power_off_calls_def split: option.splits)

lemma power_off_calls_append [simp]:
  "power_off_calls (xs @ ys) = power_off_calls xs + power_off_calls ys"
  by (simp add: power_off_calls_def)

lemma off_events_power_off:
  "power_off_calls (off_events s d) = (if cfg0 d \<noteq> - 1 \<and> driver d = None then 1 else 0)"
  "count_list (off_events s d) Register_pm_notifier = 0"
  by (simp_all add: off_events_def power_off_calls_def split: option.splits)

lemma load_events_counts:
  "count_list (load_events fw s d) Register_pm_notifier = (if cfg0 d = - 1 then 0 else 1)"
  "disable_calls (load_events fw s d) = (if cfg0 d = - 1 then 0 else 1)"
  "power_off_calls (load_events fw s d) = (if cfg0 d \<noteq> - 1 \<and> driver d = None then 1 else 0)"
  "filter is_firmware_call (load_events fw s d) = [] \<longleftrightarrow> cfg0 d = - 1 \<or> driver d \<noteq> None"
  by (auto simp add: load_events_def off_events_power_off)
    (simp_all add: disable_calls_def power_off_calls_def off_events_def acquire_events_def
       release_events_def split: option.splits)

lemma scanned_frame:
  "device_vendor (scanned devs s0) = device_vendor s0
   \<and> discrete_state (scanned devs s0) = discrete_state s0
   \<and> load_discrete_state (scanned devs s0) = load_discrete_state s0
   \<and> nb_notifier_call (scanned devs s0) = nb_notifier_call s0
   \<and> (\<exists>es. trace (scanned devs s0) = trace s0 @ version_line # es \<and> list_all is_scan_event es)"
  using scan_frame [of devs "\<lparr>igd_dev = None, igd_handle = None\<rparr>" "emit version_line s0"]
  by (simp add: scanned_def emit_def)

lemma version_line_quiet:
  "\<not> is_firmware_call version_line" "\<not> is_power_off version_line"
  "version_line \<noteq> Register_pm_notifier"
  "version_line \<noteq> Printk KERN_INFO ''turning discrete off'' []"
  by (simp_all add: version_line_def)

lemma scanned_no_candidate:
  assumes "\<forall>d \<in> set devs. \<not> discrete_candidate d" and "dis_dev s0 = None"
    and "dis_handle s0 = None"
  shows "dis_dev (scanned devs s0) = None"
proof -
  have "\<forall>d \<in> set (butlast devs). \<not> discrete_candidate d"
    using assms(1) in_set_butlastD by fastforce
  then have "\<not> both_from (igd_handle \<lparr>igd_dev = None, igd_handle = None\<rparr> \<noteq> None)
                (dis_handle (emit version_line s0) \<noteq> None) (butlast devs)"
    using assms(3) by (simp add: both_from_def list_ex_iff)
  from scan_last_wins [OF this] assms(1,2) show ?thesis
    by (simp add: scanned_def)
qed

section \<open>Startup\<close>

text \<open>
  C6. For every enumeration with no discrete candidate (no graphics-class device with a
  firmware handle and a vendor other than Intel), startup from the statics of a freshly
  loaded module returns \<open>-ENODEV\<close>, that is \<open>-19\<close>, and its trace has no call of
  \<^verbatim>\<open>acpi_evaluate_object\<close>; \<open>dis_dev\<close> stays \<^verbatim>\<open>NULL\<close>.
\<close>

theorem init_no_discrete_device:
  assumes "\<forall>d \<in> set devs. \<not> discrete_candidate d"
  shows "\<exists>s'. discrete_disabler_init fw devs module_initial = Some (- ENODEV, s')
           \<and> - ENODEV = - 19
           \<and> filter is_firmware_call (trace s') = []
           \<and> dis_dev s' = None"
proof -
  have none: "dis_dev (scanned devs module_initial) = None"
    using assms by (rule scanned_no_candidate) (simp_all add: module_initial_def)
  obtain es where es: "trace (scanned devs module_initial) = version_line # es"
      "list_all is_scan_event es"
    using scanned_frame [of devs module_initial] by (auto simp: module_initial_def)
  from es(2) have "filter is_firmware_call es = []"
    by (simp add: scan_events_quiet)
  with es(1) none show ?thesis
    by (simp add: init_none [OF none] emit_def ENODEV_def version_line_quiet)
qed

theorem init_no_discrete_device_witness:
  "\<not> discrete_candidate intel_gpu
   \<and> discrete_disabler_init fw_works [intel_gpu] module_initial
       = Some (- 19,
               module_initial\<lparr>trace :=
                 [Printk KERN_INFO ''version %s'' [''0.2''],
                  Acpi_get_name 1,
                  Printk KERN_INFO ''Found intergrated VGA device %s: %s''
                    [''0000:00:02.0'', ''_SB.PCI0.GFX0''],
                  Kfree,
                  Printk KERN_ERR ''No discrete VGA device found!'' []]\<rparr>)"
  using init_no_discrete_device [of "[intel_gpu]" fw_works]
  by (simp add: discrete_candidate_def graphics_class_def discrete_disabler_init_def
        scan.simps(2) intel_gpu_def
        module_initial_def emit_def ENODEV_def DISCRETE_DISABLER_VERSION_def
        PCI_CLASS_DISPLAY_VGA_def PCI_CLASS_DISPLAY_3D_def PCI_CLASS_DISPLAY_OTHER_def
        PCI_VENDOR_ID_INTEL_def Let_def)

section \<open>Evaluating the examples\<close>

lemmas example_defs =
  nvidia_gpu_def intel_gpu_def claimed_nvidia_def module_initial_def fw_works_def
  fw_silent_def fw_on_fails_def DISCRETE_DISABLER_VERSION_def
  PCI_CLASS_DISPLAY_VGA_def PCI_CLASS_DISPLAY_3D_def PCI_CLASS_DISPLAY_OTHER_def
  PCI_VENDOR_ID_INTEL_def PM_HIBERNATION_PREPARE_def PM_SUSPEND_PREPARE_def
  PM_POST_HIBERNATION_def PM_POST_SUSPEND_def PM_POST_RESTORE_def PM_RESTORE_PREPARE_def

lemmas run_defs =
  discrete_disabler_init_def discrete_disabler_exit_def discrete_pm_handler_def
  discrete_on_def discrete_off_def dis_dev_get_def dis_dev_put_def get_discrete_state_def
  acpi_evaluate_object_def emit_def scan.simps(2) Let_def

lemma init_example:
  "discrete_disabler_init fw_on_fails [intel_gpu, nvidia_gpu] module_initial
     = Some (0, enabled_before_unload\<lparr>discrete_state := GPU_DISABLE,
                  trace := take 17 (trace enabled_before_unload)\<rparr>)"
  by (simp add: run_defs example_defs enabled_before_unload_def)

lemma before_unload_eq: "before_unload = Some enabled_before_unload"
  unfolding before_unload_def init_example
  by (simp add: run_defs example_defs enabled_before_unload_def)

section \<open>Unloading with the device already enabled\<close>

text \<open>
  C1, evaluated. The run \<open>before_unload\<close> ends in \<open>enabled_before_unload\<close>, with
  \<open>discrete_state = GPU_ENABLE\<close> and three acquisitions matched by three releases.
  \<^verbatim>\<open>discrete_disabler_exit\<close> from there acquires a fourth time and returns: the
  trace has four acquisitions and three releases.
\<close>

theorem exit_leaks_guard:
  "before_unload = Some enabled_before_unload
   \<and> discrete_state enabled_before_unload = GPU_ENABLE
   \<and> length (filter is_acquire (trace enabled_before_unload)) = 3
   \<and> length (filter is_release (trace enabled_before_unload)) = 3
   \<and> map_option (\<lambda>s. length (filter is_acquire (trace s)))
        (discrete_disabler_exit fw_on_fails enabled_before_unload) = Some 4
   \<and> map_option (\<lambda>s. length (filter is_release (trace s)))
        (discrete_disabler_exit fw_on_fails enabled_before_unload) = Some 3"
  by (simp add: before_unload_eq)
    (simp add: run_defs example_defs enabled_before_unload_def)

text \<open>
  C4, evaluated. In \<open>enabled_before_unload\<close> the state at load is \<open>GPU_ENABLE\<close>, the
  current state is \<open>GPU_ENABLE\<close> and the notifier was registered at startup.
  \<^verbatim>\<open>discrete_disabler_exit\<close> calls \<^verbatim>\<open>pm_runtime_get_sync\<close>, logs that the card is
  already enabled and returns: no \<^verbatim>\<open>pm_runtime_put_sync\<close>, no
  \<^verbatim>\<open>unregister_pm_notifier\<close>.
\<close>

theorem exit_skips_release_and_unregister:
  "load_discrete_state enabled_before_unload = GPU_ENABLE
   \<and> discrete_state enabled_before_unload = GPU_ENABLE
   \<and> nb_notifier_call enabled_before_unload
   \<and> count_list (trace enabled_before_unload) Register_pm_notifier = 1
   \<and> discrete_disabler_exit fw_on_fails enabled_before_unload
       = Some (enabled_before_unload\<lparr>trace := trace enabled_before_unload @
            [Pm_runtime_get_sync ''0000:00:01.0'',
             Printk KERN_INFO ''discrete card %s has already been enabled. Do nothing.''
               [''0000:01:00.0'']]\<rparr>)"
  by (simp add: run_defs example_defs enabled_before_unload_def)

text \<open>
  Startup on a machine whose discrete device is powered and claimed by nouveau:
  \<^verbatim>\<open>discrete_off\<close> refuses (the warning, no firmware call, \<open>discrete_state\<close> still
  \<open>GPU_UNCHANGED\<close>), and the notifier is registered all the same.
\<close>

theorem init_registers_when_refused:
  "discrete_disabler_init fw_works [claimed_nvidia] module_initial
     = Some (0,
         \<lparr>device_vendor = 0x10DE, discrete_state = GPU_UNCHANGED,
          load_discrete_state = GPU_ENABLE, dis_dev = Some claimed_nvidia,
          dis_handle = Some 2, nb_notifier_call = True,
          trace =
            [Printk KERN_INFO ''version %s'' [''0.2''], Acpi_get_name 2,
             Printk KERN_INFO ''Found discrete VGA device %s: %s''
               [''0000:01:00.0'', ''_SB.PCI0.PEG0.PEGP''],
             Kfree,
             Printk KERN_INFO ''Successfully loaded. Discrete card found: %s''
               [''0000:01:00.0''],
             Pm_runtime_get_sync ''0000:00:01.0'',
             Pci_read_config_dword ''0000:01:00.0'' 0,
             Printk KERN_INFO ''turning discrete off'' [],
             Pci_read_config_dword ''0000:01:00.0'' 0,
             Printk KERN_WARNING ''device %s is in use by driver '%s', refusing OFF''
               [''0000:01:00.0'', ''nouveau''],
             Printk KERN_INFO ''Successfully disable discrete card %s'' [''0000:01:00.0''],
             Register_pm_notifier, Pm_runtime_put_sync ''0000:00:01.0'']\<rparr>)"
  by (simp add: run_defs example_defs)

lemma scan_links:
  "map_option handle (dis_dev s) = map_option Some (dis_handle s) \<Longrightarrow>
   map_option handle (dis_dev (snd (scan ps l s)))
     = map_option Some (dis_handle (snd (scan ps l s)))"
proof (induction ps arbitrary: l s)
  case Nil
  then show ?case by simp
next
  case (Cons p ps)
  show ?case
  proof (cases p rule: candidate_cases)
    case skip
    with Cons.IH [of s l] Cons.prems show ?thesis
      by (simp add: scan_skip [OF skip])
  next
    case no_handle
    with Cons.IH [of "emit (Printk KERN_WARNING ''can not find ACPI handle for VGA device %s''
                          [dev_name p]) s" l] Cons.prems
    show ?thesis
      by (simp add: scan_no_handle [OF no_handle])
  next
    case (integrated h)
    with Cons.IH [of "found_integrated p h s" "l\<lparr>igd_dev := Some p, igd_handle := Some h\<rparr>"]
      Cons.prems
    show ?thesis
      by (simp add: scan_integrated [OF integrated])
  next
    case (discrete h)
    with Cons.IH [of "found_discrete p h s" l] Cons.prems
    show ?thesis
      by (simp add: scan_discrete [OF discrete])
  qed
qed

lemma scan_observed:
  assumes "igd_handle l = None" and "dis_handle s = None" and "dis_dev s = None"
  shows "dis_dev (snd (scan devs l s)) = last_discrete (observed_prefix devs)"
proof -
  obtain post where post: "devs = observed_prefix devs @ post"
      "post = [] \<or> both_resolved (observed_prefix devs)"
    using observed_prefix_split by blast
  have short: "\<not> both_from (igd_handle l \<noteq> None) (dis_handle s \<noteq> None)
                   (butlast (observed_prefix devs))"
    using assms(1,2) by (simp add: both_from_initial observed_prefix_shortest)
  have stop: "post = [] \<or> both_from (igd_handle l \<noteq> None) (dis_handle s \<noteq> None)
                   (observed_prefix devs)"
    using assms(1,2) post(2) by (simp add: both_from_initial)
  have "scan (observed_prefix devs @ post) l s = scan (observed_prefix devs) l s"
    using short stop by (rule scan_stops_after)
  then have "scan devs l s = scan (observed_prefix devs) l s"
    using post(1) by simp
  then show ?thesis
    using scan_last_wins [OF short] assms(3) by (simp add: last_discrete_eq)
qed

lemma scanned_found:
  "dis_dev (scanned devs module_initial) = last_discrete (observed_prefix devs)"
  "map_option handle (dis_dev (scanned devs module_initial))
     = map_option Some (dis_handle (scanned devs module_initial))"
proof -
  show "dis_dev (scanned devs module_initial) = last_discrete (observed_prefix devs)"
    unfolding scanned_def by (rule scan_observed) (simp_all add: module_initial_def)
  show "map_option handle (dis_dev (scanned devs module_initial))
     = map_option Some (dis_handle (scanned devs module_initial))"
    unfolding scanned_def by (rule scan_links) (simp add: module_initial_def)
qed

lemma load_events_firmware:
  "filter is_firmware_call (load_events fw s d)
     = (if cfg0 d \<noteq> - 1 \<and> driver d = None
        then [Acpi_evaluate_object (dis_handle s) ''_OFF''] else [])"
  by (simp add: load_events_def off_events_def acquire_events_def release_events_def
        split: option.splits)

lemma load_events_balanced:
  "length (filter is_acquire (load_events fw s d))
     = length (filter is_release (load_events fw s d))"
  by (simp add: load_events_def off_events_def acquire_events_def release_events_def
        split: option.splits)

lemma init_rest_steps:
  assumes "dis_dev s2 = Some d" and "cfg0 d \<noteq> - 1"
  shows "\<exists>s7 s8 s'. init_rest fw s2 = Some (0, s')
           \<and> dis_dev s7 = Some d \<and> load_discrete_state s7 = GPU_ENABLE
           \<and> discrete_state s7 = discrete_state s2
           \<and> discrete_off fw s7 = Some s8
           \<and> dis_dev_put (emit Register_pm_notifier
                 ((emit (Printk KERN_INFO ''Successfully disable discrete card %s''
                           [dev_name d]) s8)\<lparr>nb_notifier_call := True\<rparr>)) = Some s'"
proof -
  let ?s5 = "s2\<lparr>device_vendor := uint (vendor d),
               trace := (trace s2
                  @ [Printk KERN_INFO ''Successfully loaded. Discrete card found: %s''
                       [dev_name d]])
                  @ acquire_events d\<rparr>"
  let ?s7 = "?s5\<lparr>trace := trace ?s5 @ [Pci_read_config_dword (dev_name d) 0],
                  load_discrete_state := GPU_ENABLE\<rparr>"
  have d7: "dis_dev ?s7 = Some d" using assms(1) by simp
  have "\<exists>s8 d'. discrete_off fw ?s7 = Some s8 \<and> dis_dev s8 = Some d'"
    unfolding discrete_off_eq [OF d7, of fw]
    by (cases "cfg0 d \<noteq> - 1 \<and> driver d = None") (simp_all add: assms(1))
  then obtain s8 d' where s8: "discrete_off fw ?s7 = Some s8" and d': "dis_dev s8 = Some d'"
    by blast
  let ?s11 = "emit Register_pm_notifier
                 ((emit (Printk KERN_INFO ''Successfully disable discrete card %s''
                           [dev_name d]) s8)\<lparr>nb_notifier_call := True\<rparr>)"
  have "dis_dev ?s11 = Some d'" using d' by (simp add: emit_def)
  then obtain s' where s': "dis_dev_put ?s11 = Some s'"
    using dis_dev_put_eq by blast
  have "init_rest fw s2 = Some (0, s')"
    using assms s8 s'
    by (simp add: init_rest_def Let_def dis_dev_get_eq [of _ d] get_discrete_state_eq [of _ d]
          emit_def)
  with d7 s8 s' show ?thesis
    by (intro exI [of _ ?s7] exI [of _ s8] exI [of _ s']) simp
qed

text \<open>
  C2, as the code has it. Startup from the statics of a freshly loaded module returns
  \<open>-ENODEV\<close> when the scan finds no discrete device (nothing is registered, the state at
  load stays \<open>GPU_UNCHANGED\<close>) and 0 otherwise, with the state at load read from the
  device found: \<open>GPU_DISABLE\<close> when it reads all-ones, \<open>GPU_ENABLE\<close> when not. The notifier
  is registered (once, with \<^verbatim>\<open>nb.notifier_call\<close> set) exactly when the state at load is
  \<open>GPU_ENABLE\<close>: startup then calls \<^verbatim>\<open>discrete_off\<close> and registers after it, whatever
  that call did. \<^verbatim>\<open>_OFF\<close> is evaluated, on the handle of the device, exactly when the
  device is powered and no driver claims it, and only then \<open>discrete_state\<close> becomes
  \<open>GPU_DISABLE\<close>; for a claimed device it stays \<open>GPU_UNCHANGED\<close> and the notifier is
  registered all the same. Acquisitions and releases balance.
\<close>

theorem init_registers_notifier:
  "\<exists>r s'. discrete_disabler_init fw devs module_initial = Some (r, s')
      \<and> (r = 0 \<or> r = - ENODEV)
      \<and> nb_notifier_call s' = (load_discrete_state s' = GPU_ENABLE)
      \<and> count_list (trace s') Register_pm_notifier
          = (if load_discrete_state s' = GPU_ENABLE then 1 else 0)
      \<and> disable_calls (trace s') = (if load_discrete_state s' = GPU_ENABLE then 1 else 0)
      \<and> power_off_calls (trace s') = (if discrete_state s' = GPU_DISABLE then 1 else 0)
      \<and> (\<forall>d drv. dis_dev s' = Some d \<and> driver d = Some drv
            \<longrightarrow> power_off_calls (trace s') = 0)
      \<and> (case last_discrete (observed_prefix devs) of
            None \<Rightarrow>
              r = - ENODEV \<and> dis_dev s' = None
              \<and> load_discrete_state s' = GPU_UNCHANGED
              \<and> discrete_state s' = GPU_UNCHANGED
              \<and> filter is_firmware_call (trace s') = []
          | Some d \<Rightarrow>
              r = 0
              \<and> load_discrete_state s'
                  = (if cfg0 d = 0xFFFFFFFF then GPU_DISABLE else GPU_ENABLE)
              \<and> discrete_state s'
                  = (if cfg0 d \<noteq> 0xFFFFFFFF \<and> driver d = None
                     then GPU_DISABLE else GPU_UNCHANGED)
              \<and> filter is_firmware_call (trace s')
                  = (if cfg0 d \<noteq> 0xFFFFFFFF \<and> driver d = None
                     then [Acpi_evaluate_object (handle d) ''_OFF''] else [])
              \<and> length (filter is_acquire (trace s'))
                  = length (filter is_release (trace s'))
              \<and> (cfg0 d \<noteq> 0xFFFFFFFF \<longrightarrow>
                   (\<exists>s7 s8. dis_dev s7 = Some d
                      \<and> load_discrete_state s7 = GPU_ENABLE
                      \<and> discrete_state s7 = GPU_UNCHANGED
                      \<and> discrete_off fw s7 = Some s8
                      \<and> dis_dev_put (emit Register_pm_notifier
                            ((emit (Printk KERN_INFO
                                      ''Successfully disable discrete card %s''
                                      [dev_name d]) s8)\<lparr>nb_notifier_call := True\<rparr>))
                          = Some s')))"
proof -
  let ?s2 = "scanned devs module_initial"
  obtain es where es: "trace ?s2 = version_line # es" "list_all is_scan_event es"
    using scanned_frame [of devs module_initial] by (auto simp: module_initial_def)
  have fields: "discrete_state ?s2 = GPU_UNCHANGED" "load_discrete_state ?s2 = GPU_UNCHANGED"
      "nb_notifier_call ?s2 = False"
    using scanned_frame [of devs module_initial] by (simp_all add: module_initial_def)
  have quiet: "count_list (trace ?s2) Register_pm_notifier = 0" "disable_calls (trace ?s2) = 0"
      "power_off_calls (trace ?s2) = 0" "filter is_firmware_call (trace ?s2) = []"
      "filter is_acquire (trace ?s2) = []" "filter is_release (trace ?s2) = []"
    using scan_events_quiet [OF es(2)] version_line_quiet
    by (simp_all add: es(1) disable_calls_def power_off_calls_def version_line_def)
  show ?thesis
  proof (cases "dis_dev ?s2")
    case None
    then have nl: "last_discrete (observed_prefix devs) = None"
      by (simp add: scanned_found(1))
    have "discrete_disabler_init fw devs module_initial
            = Some (- ENODEV, emit (Printk KERN_ERR ''No discrete VGA device found!'' []) ?s2)"
      using None by (rule init_none)
    with None fields quiet nl show ?thesis
      by (simp add: emit_def disable_calls_def power_off_calls_def)
  next
    case (Some d)
    then have ld: "last_discrete (observed_prefix devs) = Some d"
      by (simp add: scanned_found(1))
    have hd: "dis_handle ?s2 = handle d"
      using scanned_found(2) [of devs] Some by (cases "dis_handle ?s2") auto
    obtain s' where s': "init_rest fw ?s2 = Some (0, s')"
        "trace s' = trace ?s2 @ load_events fw ?s2 d"
        "load_discrete_state s' = (if cfg0 d = - 1 then GPU_DISABLE else GPU_ENABLE)"
        "nb_notifier_call s' = (if cfg0 d = - 1 then nb_notifier_call ?s2 else True)"
        "discrete_state s'
           = (if cfg0 d \<noteq> - 1 \<and> driver d = None then GPU_DISABLE else discrete_state ?s2)"
        "dis_dev s'
           = Some (if cfg0 d \<noteq> - 1 \<and> driver d = None
                   then d\<lparr>cfg0 := fw (dis_handle ?s2) ''_OFF'' (cfg0 d)\<rparr> else d)"
      using init_rest_found [OF Some, of fw] by blast
    have c1: "discrete_disabler_init fw devs module_initial = Some (0, s')"
      using s'(1) by (simp add: init_unfold)
    have c2: "nb_notifier_call s' = (load_discrete_state s' = GPU_ENABLE)"
      using s'(3,4) fields by simp
    have c3: "count_list (trace s') Register_pm_notifier
          = (if load_discrete_state s' = GPU_ENABLE then 1 else 0)"
      using s'(2,3) quiet by (simp add: load_events_counts)
    have c4: "disable_calls (trace s') = (if load_discrete_state s' = GPU_ENABLE then 1 else 0)"
      using s'(2,3) quiet by (simp add: load_events_counts)
    have c5: "power_off_calls (trace s') = (if discrete_state s' = GPU_DISABLE then 1 else 0)"
      using s'(2,5) quiet fields by (simp add: load_events_counts)
    have c6: "\<forall>d' drv. dis_dev s' = Some d' \<and> driver d' = Some drv
            \<longrightarrow> power_off_calls (trace s') = 0"
      using s'(2,6) quiet by (auto simp: load_events_counts split: if_splits)
    have c7: "load_discrete_state s' = (if cfg0 d = 0xFFFFFFFF then GPU_DISABLE else GPU_ENABLE)"
      using s'(3) by (simp add: hex_minus_one)
    have c8: "discrete_state s'
                = (if cfg0 d \<noteq> 0xFFFFFFFF \<and> driver d = None
                   then GPU_DISABLE else GPU_UNCHANGED)"
      using s'(5) fields by (simp add: hex_minus_one)
    have c9: "filter is_firmware_call (trace s')
                = (if cfg0 d \<noteq> 0xFFFFFFFF \<and> driver d = None
                   then [Acpi_evaluate_object (handle d) ''_OFF''] else [])"
      using s'(2) quiet(4) hd by (simp add: load_events_firmware hex_minus_one)
    have c10: "length (filter is_acquire (trace s')) = length (filter is_release (trace s'))"
      using s'(2) quiet(5,6) by (simp add: load_events_balanced)
    have c11: "cfg0 d \<noteq> 0xFFFFFFFF \<longrightarrow>
                   (\<exists>s7 s8. dis_dev s7 = Some d
                      \<and> load_discrete_state s7 = GPU_ENABLE
                      \<and> discrete_state s7 = GPU_UNCHANGED
                      \<and> discrete_off fw s7 = Some s8
                      \<and> dis_dev_put (emit Register_pm_notifier
                            ((emit (Printk KERN_INFO
                                      ''Successfully disable discrete card %s''
                                      [dev_name d]) s8)\<lparr>nb_notifier_call := True\<rparr>))
                          = Some s')"
    proof
      assume "cfg0 d \<noteq> 0xFFFFFFFF"
      then have "cfg0 d \<noteq> - 1" by (simp add: hex_minus_one)
      from init_rest_steps [OF Some this, of fw] s'(1) fields(1)
      show "\<exists>s7 s8. dis_dev s7 = Some d
                      \<and> load_discrete_state s7 = GPU_ENABLE
                      \<and> discrete_state s7 = GPU_UNCHANGED
                      \<and> discrete_off fw s7 = Some s8
                      \<and> dis_dev_put (emit Register_pm_notifier
                            ((emit (Printk KERN_INFO
                                      ''Successfully disable discrete card %s''
                                      [dev_name d]) s8)\<lparr>nb_notifier_call := True\<rparr>))
                          = Some s'"
        by auto
    qed
    show ?thesis
      apply (rule exI [of _ 0], rule exI [of _ s'])
      using c1 c2 c3 c4 c5 c6 c7 c8 c9 c10 c11 ld by simp
  qed
qed

theorem init_registers_notifier_witness:
  "map_option (\<lambda>r. dis_dev (snd r))
     (discrete_disabler_init fw_works [intel_gpu, claimed_nvidia] module_initial)
     = Some (Some claimed_nvidia)
   \<and> driver claimed_nvidia = Some ''nouveau''
   \<and> map_option fst (discrete_disabler_init fw_works [intel_gpu, claimed_nvidia] module_initial)
       = Some 0
   \<and> map_option (\<lambda>r. (load_discrete_state (snd r), nb_notifier_call (snd r),
                        count_list (trace (snd r)) Register_pm_notifier,
                        power_off_calls (trace (snd r))))
        (discrete_disabler_init fw_works [intel_gpu, claimed_nvidia] module_initial)
       = Some (GPU_ENABLE, True, 1, 0)"
  using init_registers_notifier [of fw_works "[intel_gpu, claimed_nvidia]"]
  by (simp add: run_defs example_defs power_off_calls_def)

section \<open>Repeated transitions\<close>

text \<open>
  C8, as the code has it. Both transitions read the device again before acting. Two
  calls of \<^verbatim>\<open>discrete_off\<close> in a row make no \<^verbatim>\<open>_OFF\<close> call when the device reads
  all-ones or is claimed by a driver; otherwise they make exactly one when the first
  \<^verbatim>\<open>_OFF\<close> leaves the device reading all-ones, and two when it does not.
  \<^verbatim>\<open>discrete_on\<close> on a device that does not read all-ones makes no firmware call.
\<close>

theorem discrete_off_on_idempotence:
  assumes "dis_dev s = Some d"
  shows "(\<exists>s1 s2. discrete_off fw s = Some s1 \<and> discrete_off fw s1 = Some s2
            \<and> power_off_calls (new_events s s2)
                = (if cfg0 d = 0xFFFFFFFF \<or> driver d \<noteq> None then 0
                   else if fw (dis_handle s) ''_OFF'' (cfg0 d) = 0xFFFFFFFF then 1
                   else 2))
         \<and> (\<exists>s3. discrete_on fw s = Some s3
               \<and> (cfg0 d \<noteq> 0xFFFFFFFF \<longrightarrow> filter is_firmware_call (new_events s s3) = []))"
proof -
  let ?d1 = "if cfg0 d \<noteq> - 1 \<and> driver d = None
             then d\<lparr>cfg0 := fw (dis_handle s) ''_OFF'' (cfg0 d)\<rparr> else d"
  obtain s1 where s1: "discrete_off fw s = Some s1" "dis_dev s1 = Some ?d1"
      "trace s1 = trace s @ off_events s d" "dis_handle s1 = dis_handle s"
    using assms by (auto simp: discrete_off_eq)
  obtain s2 where s2: "discrete_off fw s1 = Some s2"
      "trace s2 = trace s1 @ off_events s1 ?d1"
    using s1(2) by (auto simp: discrete_off_eq [of s1 ?d1])
  have "new_events s s2 = off_events s d @ off_events s1 ?d1"
    using s1(3) s2(2) by (simp add: new_events_def)
  then have "power_off_calls (new_events s s2)
          = power_off_calls (off_events s d) + power_off_calls (off_events s1 ?d1)"
    by simp
  also have "\<dots> = (if cfg0 d = 0xFFFFFFFF \<or> driver d \<noteq> None then 0
                  else if fw (dis_handle s) ''_OFF'' (cfg0 d) = 0xFFFFFFFF then 1
                  else 2)"
    by (auto simp: off_events_power_off hex_minus_one)
  finally have twice: "\<exists>s1 s2. discrete_off fw s = Some s1 \<and> discrete_off fw s1 = Some s2
            \<and> power_off_calls (new_events s s2)
                = (if cfg0 d = 0xFFFFFFFF \<or> driver d \<noteq> None then 0
                   else if fw (dis_handle s) ''_OFF'' (cfg0 d) = 0xFFFFFFFF then 1
                   else 2)"
    using s1(1) s2(1) by blast
  have "\<exists>s3. discrete_on fw s = Some s3
           \<and> (cfg0 d \<noteq> 0xFFFFFFFF \<longrightarrow> filter is_firmware_call (new_events s s3) = [])"
    using assms by (simp add: discrete_on_eq new_events_def on_events_def hex_minus_one)
  with twice show ?thesis by blast
qed

theorem discrete_off_on_idempotence_witness:
  "dis_dev powered_on = Some nvidia_gpu
   \<and> map_option (\<lambda>s2. power_off_calls (new_events powered_on s2))
        (Option.bind (discrete_off fw_works powered_on) (discrete_off fw_works)) = Some 1
   \<and> cfg0 nvidia_gpu \<noteq> 0xFFFFFFFF
   \<and> map_option (\<lambda>s3. filter is_firmware_call (new_events powered_on s3))
        (discrete_on fw_works powered_on) = Some []"
  using discrete_off_on_idempotence [of powered_on nvidia_gpu fw_works]
  by (simp add: run_defs example_defs powered_on_def power_off_calls_def new_events_def)

text \<open>
  Two calls of \<^verbatim>\<open>discrete_off\<close> in a row make two \<^verbatim>\<open>_OFF\<close> calls on a powered,
  unclaimed device whose firmware call changes nothing, and none on a claimed device.
\<close>

theorem discrete_off_twice_counterexample:
  "map_option (\<lambda>s2. power_off_calls (new_events powered_on s2))
     (Option.bind (discrete_off fw_silent powered_on) (discrete_off fw_silent)) = Some 2
   \<and> map_option (\<lambda>s2. power_off_calls (new_events refused_at_load s2))
        (Option.bind (discrete_off fw_works refused_at_load) (discrete_off fw_works)) = Some 0"
  by (simp add: run_defs example_defs powered_on_def refused_at_load_def power_off_calls_def
        new_events_def)

end
